theory Spec2Isabelle
  imports Main
begin

section \<open>Descriptors\<close>

text \<open>
  Modelled from the spec: the declarations \<^verbatim>\<open>ServiceMethod\<close> and \<^verbatim>\<open>ServiceEvent\<close>
  (imported by \<^verbatim>\<open>ServiceReflect.ts\<close> from \<^verbatim>\<open>./ServiceMethod\<close> and \<^verbatim>\<open>./ServiceEvent\<close>)
  are described as pure data: a method descriptor is
  \<^verbatim>\<open>{name, parameterTypes, returnType}\<close> and an event descriptor is
  \<^verbatim>\<open>{name, payloadTypes}\<close>. Both are JavaScript objects, hence truthy.
\<close>

datatype Type = StringType | NamedType string

record ServiceMethod =
  method_name :: string
  parameterTypes :: "Type list"
  returnType :: Type

record ServiceEvent =
  event_name :: string
  payloadTypes :: "Type list"

section \<open>JavaScript \<^verbatim>\<open>Map\<close> objects\<close>

text \<open>
  A \<^verbatim>\<open>Map<K, V>\<close> is its list of entries in insertion order. \<^verbatim>\<open>get\<close> answers
  \<^verbatim>\<open>undefined\<close> (\<open>None\<close>) for an absent key, \<^verbatim>\<open>set\<close> on a present key replaces the
  value in place and on an absent key appends the entry, \<^verbatim>\<open>values()\<close> iterates in
  insertion order.
\<close>

type_synonym ('k, 'v) js_map = "('k \<times> 'v) list"

definition Map_get :: "('k, 'v) js_map \<Rightarrow> 'k \<Rightarrow> 'v option" where
  "Map_get m k = map_of m k"

definition Map_has :: "('k, 'v) js_map \<Rightarrow> 'k \<Rightarrow> bool" where
  "Map_has m k = (k \<in> set (map fst m))"

fun Map_set :: "('k, 'v) js_map \<Rightarrow> 'k \<Rightarrow> 'v \<Rightarrow> ('k, 'v) js_map" where
  "Map_set [] k v = [(k, v)]"
| "Map_set ((k', v') # m) k v =
     (if k' = k then (k, v) # m else (k', v') # Map_set m k v)"

definition Map_values :: "('k, 'v) js_map \<Rightarrow> 'v list" where
  "Map_values m = map snd m"

text \<open>\<^verbatim>\<open>new Map(entries)\<close>: the entries are \<^verbatim>\<open>set\<close> one after the other.\<close>

definition Map_new :: "('k \<times> 'v) list \<Rightarrow> ('k, 'v) js_map" where
  "Map_new kvs = foldl (\<lambda>m (k, v). Map_set m k v) [] kvs"

section \<open>The store of objects\<close>

text \<open>
  Maps and arrays are objects: a variable or a field holds a reference, and two
  references may denote the same object. The store is the list of objects allocated
  so far, a reference is an index into it, and allocation appends.
\<close>

type_synonym ref = nat

datatype cell =
    MethodMap "(string, ServiceMethod) js_map"
  | EventMap "(string, ServiceEvent) js_map"
  | MethodArray "ServiceMethod list"
  | EventArray "ServiceEvent list"

type_synonym heap = "cell list"

definition deref :: "heap \<Rightarrow> ref \<Rightarrow> cell option" where
  "deref h a = (if a < length h then Some (h ! a) else None)"

definition alloc :: "heap \<Rightarrow> cell \<Rightarrow> ref \<times> heap" where
  "alloc h c = (length h, h @ [c])"

text \<open>
  Every mutating operation on an array (\<^verbatim>\<open>push\<close>, \<^verbatim>\<open>pop\<close>, \<^verbatim>\<open>a[i] = v\<close>, \<^verbatim>\<open>splice\<close>,
  \<^verbatim>\<open>a.length = n\<close>, \<^verbatim>\<open>sort\<close>, ...) changes the contents of the one object the
  reference denotes and nothing else; \<open>mutate h a c\<close> is the store after the object at
  \<open>a\<close> has received the new contents \<open>c\<close>.
\<close>

definition mutate :: "heap \<Rightarrow> ref \<Rightarrow> cell \<Rightarrow> heap" where
  "mutate h a c = (if a < length h then h[a := c] else h)"

text \<open>
  What is thrown synchronously. \<open>TypeError\<close> is what JavaScript raises when
  \<^verbatim>\<open>this._methods.get\<close> is applied to something that is not a \<^verbatim>\<open>Map\<close>; the TypeScript
  types of the constructor exclude it. The others are the errors of the spec's taxonomy
  that are surfaced synchronously.
\<close>

datatype exn =
    TypeError
  | DuplicateDescriptor
  | InvalidImplementation
  | ContractMismatch
  | DuplicateService
  | AlreadyJoined
  | AlreadyLeft

section \<open>\<^verbatim>\<open>ServiceReflect\<close>\<close>

text \<open>A value of type \<^verbatim>\<open>T | null\<close>.\<close>

datatype 'a nullable = Null | NonNull 'a

text \<open>
  \<^verbatim>\<open>x || null\<close> for \<^verbatim>\<open>x\<close> the result of \<^verbatim>\<open>Map.get\<close> on a map of objects:
  \<^verbatim>\<open>undefined\<close> is falsy and gives \<^verbatim>\<open>null\<close>, an object is truthy and is returned.
\<close>

fun or_null :: "'a option \<Rightarrow> 'a nullable" where
  "or_null None = Null"
| "or_null (Some x) = NonNull x"

text \<open>
  The fields of the abstract class: \<^verbatim>\<open>id\<close>, and the references \<^verbatim>\<open>_methods\<close> and
  \<^verbatim>\<open>_events\<close> to the two \<^verbatim>\<open>Map\<close> objects.
\<close>

record ServiceReflect =
  service_id :: string
  methods_map :: ref
  events_map :: ref

text \<open>The constructor stores the references it is given; it copies nothing.\<close>

definition ServiceReflect_new :: "string \<Rightarrow> ref \<Rightarrow> ref \<Rightarrow> ServiceReflect" where
  "ServiceReflect_new i ms es = \<lparr> service_id = i, methods_map = ms, events_map = es \<rparr>"

text \<open>
  \<^verbatim>\<open>apply\<close>, \<^verbatim>\<open>subscribe\<close> and \<^verbatim>\<open>unsubscribe\<close> are abstract: a subclass supplies them.
  \<^verbatim>\<open>call\<close> therefore takes the \<^verbatim>\<open>apply\<close> of the receiver's class as its first argument.
  An \<^verbatim>\<open>apply\<close> is any function of the receiver, the method name, the argument array
  and the state of the program, to its outcome (a promise and the new state, or what it
  throws). The rest parameter
  \<^verbatim>\<open>...args\<close> collects the arguments that follow \<^verbatim>\<open>method\<close> into an array.
\<close>

definition call ::
  "('r \<Rightarrow> string \<Rightarrow> 'a list \<Rightarrow> 's \<Rightarrow> 'p) \<Rightarrow> 'r \<Rightarrow> string \<Rightarrow> 'a list \<Rightarrow> 's \<Rightarrow> 'p" where
  "call apply this method args = apply this method args"

definition getMethod ::
  "'z ServiceReflect_scheme \<Rightarrow> string \<Rightarrow> heap \<Rightarrow> exn + (ServiceMethod nullable \<times> heap)" where
  "getMethod this name h =
     (case deref h (methods_map this) of
        Some (MethodMap m) \<Rightarrow> Inr (or_null (Map_get m name), h)
      | _ \<Rightarrow> Inl TypeError)"

definition hasMethod :: "'z ServiceReflect_scheme \<Rightarrow> string \<Rightarrow> heap \<Rightarrow> exn + (bool \<times> heap)" where
  "hasMethod this name h =
     (case deref h (methods_map this) of
        Some (MethodMap m) \<Rightarrow> Inr (Map_has m name, h)
      | _ \<Rightarrow> Inl TypeError)"

text \<open>The getter \<^verbatim>\<open>methods\<close>: the array literal with the spread allocates a new array.\<close>

definition methods :: "'z ServiceReflect_scheme \<Rightarrow> heap \<Rightarrow> exn + (ref \<times> heap)" where
  "methods this h =
     (case deref h (methods_map this) of
        Some (MethodMap m) \<Rightarrow> Inr (alloc h (MethodArray (Map_values m)))
      | _ \<Rightarrow> Inl TypeError)"

definition getEvent ::
  "'z ServiceReflect_scheme \<Rightarrow> string \<Rightarrow> heap \<Rightarrow> exn + (ServiceEvent nullable \<times> heap)" where
  "getEvent this name h =
     (case deref h (events_map this) of
        Some (EventMap m) \<Rightarrow> Inr (or_null (Map_get m name), h)
      | _ \<Rightarrow> Inl TypeError)"

definition hasEvent :: "'z ServiceReflect_scheme \<Rightarrow> string \<Rightarrow> heap \<Rightarrow> exn + (bool \<times> heap)" where
  "hasEvent this name h =
     (case deref h (events_map this) of
        Some (EventMap m) \<Rightarrow> Inr (Map_has m name, h)
      | _ \<Rightarrow> Inl TypeError)"

definition events :: "'z ServiceReflect_scheme \<Rightarrow> heap \<Rightarrow> exn + (ref \<times> heap)" where
  "events this h =
     (case deref h (events_map this) of
        Some (EventMap m) \<Rightarrow> Inr (alloc h (EventArray (Map_values m)))
      | _ \<Rightarrow> Inl TypeError)"


section \<open>A concrete reflect\<close>

text \<open>
  The descriptor of the method \<^verbatim>\<open>hello\<close> of the contract \<^verbatim>\<open>TestService\<close> of the test
  suite, an event descriptor, and a store holding the two maps of a reflect for them.
\<close>

definition hello_method :: ServiceMethod where
  "hello_method =
     \<lparr> method_name = ''hello'', parameterTypes = [StringType], returnType = StringType \<rparr>"

definition changed_event :: ServiceEvent where
  "changed_event = \<lparr> event_name = ''changed'', payloadTypes = [StringType] \<rparr>"

definition test_heap :: heap where
  "test_heap = [MethodMap [(''hello'', hello_method)], EventMap [(''changed'', changed_event)]]"

definition test_reflect :: ServiceReflect where
  "test_reflect = ServiceReflect_new ''test'' 0 1"


text \<open>A store whose maps were built from two entries each.\<close>

definition bye_method :: ServiceMethod where
  "bye_method = \<lparr> method_name = ''bye'', parameterTypes = [], returnType = StringType \<rparr>"

definition closed_event :: ServiceEvent where
  "closed_event = \<lparr> event_name = ''closed'', payloadTypes = [] \<rparr>"

definition two_methods :: "(string \<times> ServiceMethod) list" where
  "two_methods = [(''bye'', bye_method), (''hello'', hello_method)]"

definition two_events :: "(string \<times> ServiceEvent) list" where
  "two_events = [(''changed'', changed_event), (''closed'', closed_event)]"

definition two_heap :: heap where
  "two_heap = [MethodMap (Map_new two_methods), EventMap (Map_new two_events)]"

section \<open>The service layer around the reflect\<close>

text \<open>
  Modelled from the spec: the argument and result values of service methods (type
  \<^verbatim>\<open>any\<close>), which no source file declares. The values kept are
  \<^verbatim>\<open>undefined\<close>, \<^verbatim>\<open>null\<close>, booleans, strings
  and \<^verbatim>\<open>Error\<close> objects with their message; numbers are floating
  point and left out.
\<close>

datatype js_value = JUndefined | JNull | JBool bool | JString string | JError string

text \<open>
  The conversion that string concatenation with \<^verbatim>\<open>+\<close> applies to
  its operand.
\<close>

fun to_string :: "js_value \<Rightarrow> string" where
  "to_string JUndefined = ''undefined''"
| "to_string JNull = ''null''"
| "to_string (JBool b) = (if b then ''true'' else ''false'')"
| "to_string (JString s) = s"
| "to_string (JError m) = ''Error: '' @ m"

text \<open>
  The \<open>i\<close>-th parameter of a call: \<^verbatim>\<open>undefined\<close> when
  fewer arguments were passed.
\<close>

definition argument :: "js_value list \<Rightarrow> nat \<Rightarrow> js_value" where
  "argument args i = (if i < length args then args ! i else JUndefined)"

text \<open>
  Modelled from the spec: the implementation object bound by
  \<^verbatim>\<open>implement\<close> exposes the declared methods as functions. A method
  either returns a value or throws one (for an \<^verbatim>\<open>async\<close> method:
  its promise resolves or rejects); it is deterministic.
\<close>

datatype outcome = Returns js_value | Throws js_value

type_synonym implementation = "(string \<times> (js_value list \<Rightarrow> outcome)) list"

text \<open>
  Modelled from the spec: what a promise of this layer can reject with, after the error
  taxonomy of section 7. \<open>Thrown\<close> is a value thrown by a local
  implementation, unchanged.
\<close>

datatype rejection =
    Thrown js_value
  | UnknownMethod string
  | UnknownEvent string
  | ServiceNotFound string
  | RemoteInvocationError string
  | CallTimeout
  | NodeUnavailable
  | SubscriptionFailed

text \<open>
  Modelled from the spec: the state of a promise: pending, or settled by a value or by a
  rejection.
\<close>

datatype promise = Pending | Resolved js_value | Rejected rejection

type_synonym node_id = string
type_synonym promise_ref = nat
type_synonym listener = nat

text \<open>
  Modelled from the spec: the class Local Reflect, a subclass of
  \<^verbatim>\<open>ServiceReflect\<close> that is not among the sources: a reflect
  backed by an in-process implementation object. \<open>home\<close> is the node on which
  it is registered.
\<close>

record LocalReflect = ServiceReflect +
  home :: node_id
  impl :: implementation

text \<open>
  Modelled from the spec: the class Remote Reflect, a subclass of
  \<^verbatim>\<open>ServiceReflect\<close> that is not among the sources: a reflect
  backed by message exchange with the owning node. \<open>remote_home\<close> is the node
  whose registry holds it.
\<close>

record RemoteReflect = ServiceReflect +
  remote_home :: node_id
  owner :: node_id

text \<open>
  Modelled from the spec: a Service Reflect is a Local Reflect or a Remote Reflect.
\<close>

datatype reflect = Local LocalReflect | Remote RemoteReflect

text \<open>
  Modelled from the spec: the \<^verbatim>\<open>ok|error, value|message\<close> part of a
  \<^verbatim>\<open>call-response\<close>.
\<close>

datatype payload = Ok js_value | Err string

text \<open>
  Modelled from the spec: the wire messages of section 6, with the acknowledgement of
  \<^verbatim>\<open>event-subscribe\<close> that section 4.2 requires.
  \<^verbatim>\<open>service-available\<close> carries the contract shape as the entries
  of the two descriptor maps.
\<close>

datatype message =
    ServiceAvailable string "(string \<times> ServiceMethod) list" "(string \<times> ServiceEvent) list"
  | ServiceUnavailable string
  | CallRequest string string "js_value list" nat
  | CallResponse nat payload
  | EventSubscribe string string
  | EventSubscribeAck string string
  | EventUnsubscribe string string
  | EventFired string string "js_value list"

text \<open>
  Modelled from the spec: the states of a registry: Created, then Joined, then Left.
\<close>

datatype lifecycle = Created | Joined | Left

text \<open>
  Modelled from the spec: the state of one registry (\<^verbatim>\<open>Services\<close>,
  not among the sources). \<open>locals\<close> and \<open>remotes\<close> are the known
  services by id; \<open>pending\<close> is the table of PendingCalls, from correlation id
  to the promise to settle and the node the call was sent to (the deadline is real time
  and is left to \<open>call_timeout\<close>); \<open>next_correlation\<close> is the
  monotonic counter that issues correlation ids; \<open>emitters\<close> holds the
  listeners of the events of local services, \<open>forwarding\<close> the peers to which
  fired events are relayed, \<open>subscribers\<close> the listeners of the events of
  remote services, and \<open>awaiting_ack\<close> the promises of subscriptions that wait
  for their acknowledgement.
\<close>

record registry =
  state :: lifecycle
  locals :: "(string, LocalReflect) js_map"
  remotes :: "(string, RemoteReflect) js_map"
  pending :: "(nat, promise_ref \<times> node_id) js_map"
  next_correlation :: nat
  emitters :: "(string \<times> string, listener list) js_map"
  forwarding :: "(string \<times> string, node_id list) js_map"
  subscribers :: "(string \<times> string, listener list) js_map"
  awaiting_ack :: "(string \<times> string, promise_ref list) js_map"

text \<open>
  Modelled from the spec: the nodes of one process (as the test network runs them), the
  links between them, the messages in flight, the promises created so far and the listener
  invocations so far. The store of objects is shared by the process.
\<close>

record world =
  heap :: heap
  promises :: "promise list"
  registries :: "node_id \<Rightarrow> registry"
  links :: "(node_id \<times> node_id) list"
  wire :: "(node_id \<times> node_id \<times> message) list"
  fired :: "(listener \<times> js_value list) list"

text \<open>
  Modelled from the spec: a registry starts in \<open>Created\<close> and knows nothing.
\<close>

definition Services_new :: registry where
  "Services_new =
     \<lparr> state = Created, locals = [], remotes = [], pending = [], next_correlation = 0,
       emitters = [], forwarding = [], subscribers = [], awaiting_ack = [] \<rparr>"

text \<open>
  Modelled from the spec: a network with no link, in which every node has a new registry
  (\<^verbatim>\<open>new TestNetwork()\<close> and
  \<^verbatim>\<open>new Services(net)\<close> of the tests).
\<close>

definition TestNetwork_new :: world where
  "TestNetwork_new =
     \<lparr> heap = [], promises = [], registries = (\<lambda>n. Services_new), links = [], wire = [],
       fired = [] \<rparr>"

text \<open>
  Modelled from the spec: the test network links two nodes in both directions.
\<close>

definition bidirectional :: "node_id \<Rightarrow> node_id \<Rightarrow> world \<Rightarrow> world" where
  "bidirectional a b w = w\<lparr>links := links w @ [(a, b)]\<rparr>"

text \<open>Modelled from the spec: the peers connected to a node.\<close>

definition peers :: "world \<Rightarrow> node_id \<Rightarrow> node_id list" where
  "peers w n =
     map snd (filter (\<lambda>(a, b). a = n) (links w)) @ map fst (filter (\<lambda>(a, b). b = n) (links w))"

text \<open>
  Modelled from the spec: the transport sends a message to one specific peer.
\<close>

definition send :: "node_id \<Rightarrow> node_id \<Rightarrow> message \<Rightarrow> world \<Rightarrow> world" where
  "send src dst msg w = w\<lparr>wire := wire w @ [(src, dst, msg)]\<rparr>"

text \<open>
  Modelled from the spec: the transport broadcasts to all connected peers.
\<close>

definition broadcast :: "node_id \<Rightarrow> message \<Rightarrow> world \<Rightarrow> world" where
  "broadcast src msg w = foldl (\<lambda>w dst. send src dst msg w) w (peers w src)"

text \<open>
  Modelled from the spec: only the registry's own handlers and public methods change its
  tables; \<open>update_registry\<close> is such a change, on the registry of one node.
\<close>

definition update_registry :: "node_id \<Rightarrow> (registry \<Rightarrow> registry) \<Rightarrow> world \<Rightarrow> world" where
  "update_registry n f w = w\<lparr>registries := (registries w)(n := f (registries w n))\<rparr>"

text \<open>\<^verbatim>\<open>Map.delete\<close>.\<close>

definition Map_delete :: "('k, 'v) js_map \<Rightarrow> 'k \<Rightarrow> ('k, 'v) js_map" where
  "Map_delete m k = filter (\<lambda>(k', v). k' \<noteq> k) m"

text \<open>
  Modelled from the spec: a promise is created in a given state
  (\<open>new_promise\<close>), a pending promise is settled once and for all
  (\<open>settle\<close>), and \<open>await\<close> reads the state a promise has reached.
\<close>

definition new_promise :: "promise \<Rightarrow> world \<Rightarrow> promise_ref \<times> world" where
  "new_promise st w = (length (promises w), w\<lparr>promises := promises w @ [st]\<rparr>)"

definition settle :: "promise_ref \<Rightarrow> promise \<Rightarrow> world \<Rightarrow> world" where
  "settle p st w =
     (if p < length (promises w) \<and> promises w ! p = Pending
      then w\<lparr>promises := (promises w)[p := st]\<rparr> else w)"

definition await :: "world \<Rightarrow> promise_ref \<Rightarrow> promise option" where
  "await w p = (if p < length (promises w) then Some (promises w ! p) else None)"

subsection \<open>Contracts\<close>

text \<open>
  Modelled from the spec: \<^verbatim>\<open>ServiceContract\<close> (package
  \<^verbatim>\<open>ataraxia-service-contracts\<close>, not among the sources): the
  method and the event descriptors by name, in insertion order.
\<close>

record ServiceContract =
  contract_methods :: "(string, ServiceMethod) js_map"
  contract_events :: "(string, ServiceEvent) js_map"

text \<open>Modelled from the spec: a new contract describes nothing.\<close>

definition ServiceContract_new :: ServiceContract where
  "ServiceContract_new = \<lparr> contract_methods = [], contract_events = [] \<rparr>"

text \<open>
  Modelled from the spec: \<^verbatim>\<open>describeMethod\<close> and
  \<^verbatim>\<open>describeEvent\<close> append a descriptor and fail with
  DuplicateDescriptor on a name already described.
\<close>

definition describeMethod ::
  "ServiceContract \<Rightarrow> string \<Rightarrow> Type list \<Rightarrow> Type \<Rightarrow> exn + ServiceContract" where
  "describeMethod c name params ret =
     (if Map_has (contract_methods c) name then Inl DuplicateDescriptor
      else Inr (c\<lparr>contract_methods :=
                    Map_set (contract_methods c) name
                      \<lparr> method_name = name, parameterTypes = params, returnType = ret \<rparr>\<rparr>))"

definition describeEvent :: "ServiceContract \<Rightarrow> string \<Rightarrow> Type list \<Rightarrow> exn + ServiceContract" where
  "describeEvent c name payload_types =
     (if Map_has (contract_events c) name then Inl DuplicateDescriptor
      else Inr (c\<lparr>contract_events :=
                    Map_set (contract_events c) name
                      \<lparr> event_name = name, payloadTypes = payload_types \<rparr>\<rparr>))"

text \<open>
  Modelled from the spec: \<^verbatim>\<open>implement(impl)\<close> fails with
  InvalidImplementation if a declared method is not present on the implementation object,
  and otherwise produces a Local Reflect bound to it. The reflect has its own two maps; it
  gets its id and its node at registration.
\<close>

definition implement ::
  "ServiceContract \<Rightarrow> implementation \<Rightarrow> world \<Rightarrow> exn + (LocalReflect \<times> world)" where
  "implement c i w =
     (if list_all (Map_has i) (map fst (contract_methods c))
      then
        let (pm, h1) = alloc (heap w) (MethodMap (contract_methods c));
            (pe, h2) = alloc h1 (EventMap (contract_events c))
        in Inr (ServiceReflect.extend (ServiceReflect_new [] pm pe) (LocalReflect.fields [] i),
                w\<lparr>heap := h2\<rparr>)
      else Inl InvalidImplementation)"

subsection \<open>Local and remote reflects\<close>

text \<open>
  Modelled from the spec: \<^verbatim>\<open>apply\<close> of the Local Reflect (section
  4.2). It fails with UnknownMethod if the method is not in the descriptor map, otherwise
  it invokes the method of the implementation and returns its promise; a thrown value
  rejects the promise unchanged.
\<close>

definition LocalReflect_apply ::
  "LocalReflect \<Rightarrow> string \<Rightarrow> js_value list \<Rightarrow> world \<Rightarrow> exn + (promise_ref \<times> world)" where
  "LocalReflect_apply this method args w =
     (case hasMethod this method (heap w) of
        Inl e \<Rightarrow> Inl e
      | Inr (declared, h) \<Rightarrow>
          if \<not> declared then Inr (new_promise (Rejected (UnknownMethod method)) w)
          else
            (case Map_get (impl this) method of
               None \<Rightarrow> Inl TypeError
             | Some f \<Rightarrow>
                 (case f args of
                    Returns v \<Rightarrow> Inr (new_promise (Resolved v) w)
                  | Throws e \<Rightarrow> Inr (new_promise (Rejected (Thrown e)) w))))"

text \<open>
  Modelled from the spec: \<^verbatim>\<open>apply\<close> of the Remote Reflect (section
  4.2). It fails with UnknownMethod if the method is not in the descriptor map; otherwise
  it takes a fresh correlation id, registers a PendingCall, sends
  \<^verbatim>\<open>{serviceId, method, args, correlationId}\<close> to the owning node
  and returns the pending promise.
\<close>

definition RemoteReflect_apply ::
  "RemoteReflect \<Rightarrow> string \<Rightarrow> js_value list \<Rightarrow> world \<Rightarrow> exn + (promise_ref \<times> world)" where
  "RemoteReflect_apply this method args w =
     (case hasMethod this method (heap w) of
        Inl e \<Rightarrow> Inl e
      | Inr (declared, h) \<Rightarrow>
          if \<not> declared then Inr (new_promise (Rejected (UnknownMethod method)) w)
          else
            let n = remote_home this;
                c = next_correlation (registries w n);
                (p, w1) = new_promise Pending w;
                w2 = update_registry n
                       (\<lambda>reg. reg\<lparr>pending := Map_set (pending reg) c (p, owner this),
                                   next_correlation := Suc c\<rparr>) w1
            in Inr (p, send n (owner this) (CallRequest (service_id this) method args c) w2))"

text \<open>
  Modelled from the spec: the dispatch of the abstract \<^verbatim>\<open>apply\<close> on
  the class of the receiver.
\<close>

fun reflect_apply ::
  "reflect \<Rightarrow> string \<Rightarrow> js_value list \<Rightarrow> world \<Rightarrow> exn + (promise_ref \<times> world)" where
  "reflect_apply (Local l) = LocalReflect_apply l"
| "reflect_apply (Remote r) = RemoteReflect_apply r"

text \<open>
  Modelled from the spec: the listeners of one event form an ordered set;
  \<open>listeners_of\<close> reads it, \<open>add_listener\<close> adds to it.
\<close>

definition listeners_of :: "('k, 'a list) js_map \<Rightarrow> 'k \<Rightarrow> 'a list" where
  "listeners_of m k = (case Map_get m k of None \<Rightarrow> [] | Some ls \<Rightarrow> ls)"

definition add_listener :: "'a \<Rightarrow> 'a list \<Rightarrow> 'a list" where
  "add_listener l ls = (if l \<in> set ls then ls else ls @ [l])"

text \<open>
  Modelled from the spec: \<^verbatim>\<open>subscribe\<close> of the Local Reflect fails
  with UnknownEvent if the event is undeclared; otherwise it attaches the listener to the
  emitter of the event and resolves at once.
\<close>

definition LocalReflect_subscribe ::
  "LocalReflect \<Rightarrow> string \<Rightarrow> listener \<Rightarrow> world \<Rightarrow> exn + (promise_ref \<times> world)" where
  "LocalReflect_subscribe this event l w =
     (case hasEvent this event (heap w) of
        Inl e \<Rightarrow> Inl e
      | Inr (declared, h) \<Rightarrow>
          if \<not> declared then Inr (new_promise (Rejected (UnknownEvent event)) w)
          else
            let key = (service_id this, event);
                w1 = update_registry (home this)
                       (\<lambda>reg. reg\<lparr>emitters :=
                          Map_set (emitters reg) key
                            (add_listener l (listeners_of (emitters reg) key))\<rparr>) w
            in Inr (new_promise (Resolved JUndefined) w1))"

text \<open>
  Modelled from the spec: \<^verbatim>\<open>unsubscribe\<close> of the Local Reflect
  fails with UnknownEvent if the event is undeclared; otherwise it detaches the listener
  and resolves at once to whether it was attached.
\<close>

definition LocalReflect_unsubscribe ::
  "LocalReflect \<Rightarrow> string \<Rightarrow> listener \<Rightarrow> world \<Rightarrow> exn + (promise_ref \<times> world)" where
  "LocalReflect_unsubscribe this event l w =
     (case hasEvent this event (heap w) of
        Inl e \<Rightarrow> Inl e
      | Inr (declared, h) \<Rightarrow>
          if \<not> declared then Inr (new_promise (Rejected (UnknownEvent event)) w)
          else
            let key = (service_id this, event);
                ls = listeners_of (emitters (registries w (home this))) key;
                w1 = update_registry (home this)
                       (\<lambda>reg. reg\<lparr>emitters := Map_set (emitters reg) key (removeAll l ls)\<rparr>) w
            in Inr (new_promise (Resolved (JBool (l \<in> set ls))) w1))"

text \<open>
  Modelled from the spec: \<^verbatim>\<open>subscribe\<close> of the Remote Reflect fails
  with UnknownEvent if the event is undeclared. Otherwise it registers the listener; the
  first listener of an event sends \<^verbatim>\<open>event-subscribe\<close> to the
  owning node and the promise waits for the acknowledgement, a later one resolves at once.
\<close>

definition RemoteReflect_subscribe ::
  "RemoteReflect \<Rightarrow> string \<Rightarrow> listener \<Rightarrow> world \<Rightarrow> exn + (promise_ref \<times> world)" where
  "RemoteReflect_subscribe this event l w =
     (case hasEvent this event (heap w) of
        Inl e \<Rightarrow> Inl e
      | Inr (declared, h) \<Rightarrow>
          if \<not> declared then Inr (new_promise (Rejected (UnknownEvent event)) w)
          else
            let n = remote_home this;
                key = (service_id this, event);
                ls = listeners_of (subscribers (registries w n)) key;
                w1 = update_registry n
                       (\<lambda>reg. reg\<lparr>subscribers :=
                          Map_set (subscribers reg) key (add_listener l ls)\<rparr>) w
            in if ls = []
               then
                 let (p, w2) = new_promise Pending w1;
                     w3 = update_registry n
                            (\<lambda>reg. reg\<lparr>awaiting_ack :=
                               Map_set (awaiting_ack reg) key
                                 (listeners_of (awaiting_ack reg) key @ [p])\<rparr>) w2
                 in Inr (p, send n (owner this) (EventSubscribe (service_id this) event) w3)
               else Inr (new_promise (Resolved JUndefined) w1))"

text \<open>
  Modelled from the spec: \<^verbatim>\<open>unsubscribe\<close> of the Remote Reflect
  fails with UnknownEvent if the event is undeclared. Otherwise it removes the listener,
  sends \<^verbatim>\<open>event-unsubscribe\<close> when the last listener of the event
  is gone, and resolves at once to whether the listener was registered.
\<close>

definition RemoteReflect_unsubscribe ::
  "RemoteReflect \<Rightarrow> string \<Rightarrow> listener \<Rightarrow> world \<Rightarrow> exn + (promise_ref \<times> world)" where
  "RemoteReflect_unsubscribe this event l w =
     (case hasEvent this event (heap w) of
        Inl e \<Rightarrow> Inl e
      | Inr (declared, h) \<Rightarrow>
          if \<not> declared then Inr (new_promise (Rejected (UnknownEvent event)) w)
          else
            let n = remote_home this;
                key = (service_id this, event);
                ls = listeners_of (subscribers (registries w n)) key;
                w1 = update_registry n
                       (\<lambda>reg. reg\<lparr>subscribers :=
                          Map_set (subscribers reg) key (removeAll l ls)\<rparr>) w;
                w2 = (if ls \<noteq> [] \<and> removeAll l ls = []
                      then send n (owner this) (EventUnsubscribe (service_id this) event) w1
                      else w1)
            in Inr (new_promise (Resolved (JBool (l \<in> set ls))) w2))"

text \<open>
  Modelled from the spec: the dispatch of the abstract
  \<^verbatim>\<open>subscribe\<close> and \<^verbatim>\<open>unsubscribe\<close> on the
  class of the receiver.
\<close>

fun reflect_subscribe ::
  "reflect \<Rightarrow> string \<Rightarrow> listener \<Rightarrow> world \<Rightarrow> exn + (promise_ref \<times> world)" where
  "reflect_subscribe (Local l) = LocalReflect_subscribe l"
| "reflect_subscribe (Remote r) = RemoteReflect_subscribe r"

fun reflect_unsubscribe ::
  "reflect \<Rightarrow> string \<Rightarrow> listener \<Rightarrow> world \<Rightarrow> exn + (promise_ref \<times> world)" where
  "reflect_unsubscribe (Local l) = LocalReflect_unsubscribe l"
| "reflect_unsubscribe (Remote r) = RemoteReflect_unsubscribe r"

text \<open>
  Modelled from the spec: \<^verbatim>\<open>hasMethod\<close> and
  \<^verbatim>\<open>hasEvent\<close>, which both classes inherit, on a reflect of either
  class.
\<close>

fun reflect_hasMethod :: "reflect \<Rightarrow> string \<Rightarrow> heap \<Rightarrow> exn + (bool \<times> heap)" where
  "reflect_hasMethod (Local l) = hasMethod l"
| "reflect_hasMethod (Remote r) = hasMethod r"

fun reflect_hasEvent :: "reflect \<Rightarrow> string \<Rightarrow> heap \<Rightarrow> exn + (bool \<times> heap)" where
  "reflect_hasEvent (Local l) = hasEvent l"
| "reflect_hasEvent (Remote r) = hasEvent r"

subsection \<open>The registry\<close>

text \<open>
  Modelled from the spec: the message a \<^verbatim>\<open>call-response\<close> carries
  for a rejection. For a thrown \<^verbatim>\<open>Error\<close> it is the message of the
  error. The spec fixes no text for the other cases: a thrown value that is not an error
  gives its string conversion, and an error of the taxonomy gives its name.
\<close>

fun error_message :: "js_value \<Rightarrow> string" where
  "error_message (JError m) = m"
| "error_message v = to_string v"

fun rejection_message :: "rejection \<Rightarrow> string" where
  "rejection_message (Thrown v) = error_message v"
| "rejection_message (UnknownMethod m) = ''UnknownMethod''"
| "rejection_message (UnknownEvent e) = ''UnknownEvent''"
| "rejection_message (ServiceNotFound s) = ''service not found''"
| "rejection_message (RemoteInvocationError m) = m"
| "rejection_message CallTimeout = ''CallTimeout''"
| "rejection_message NodeUnavailable = ''NodeUnavailable''"
| "rejection_message SubscriptionFailed = ''SubscriptionFailed''"

text \<open>
  Modelled from the spec: the contract shape a
  \<^verbatim>\<open>service-available\<close> advertises: the entries of the two
  descriptor maps of the reflect.
\<close>

definition contract_shape ::
  "heap \<Rightarrow> 'z ServiceReflect_scheme
    \<Rightarrow> exn + ((string \<times> ServiceMethod) list \<times> (string \<times> ServiceEvent) list)" where
  "contract_shape h r =
     (case deref h (methods_map r) of
        Some (MethodMap ms) \<Rightarrow>
          (case deref h (events_map r) of
             Some (EventMap es) \<Rightarrow> Inr (ms, es)
           | _ \<Rightarrow> Inl TypeError)
      | _ \<Rightarrow> Inl TypeError)"

text \<open>
  Modelled from the spec: the advertisement of one local service, and of a list of them,
  to the connected peers.
\<close>

definition advertise :: "node_id \<Rightarrow> LocalReflect \<Rightarrow> world \<Rightarrow> exn + world" where
  "advertise n r w =
     (case contract_shape (heap w) r of
        Inl e \<Rightarrow> Inl e
      | Inr (ms, es) \<Rightarrow> Inr (broadcast n (ServiceAvailable (service_id r) ms es) w))"

fun advertise_all :: "node_id \<Rightarrow> LocalReflect list \<Rightarrow> world \<Rightarrow> exn + world" where
  "advertise_all n [] w = Inr w"
| "advertise_all n (r # rs) w =
     (case advertise n r w of Inl e \<Rightarrow> Inl e | Inr w1 \<Rightarrow> advertise_all n rs w1)"

text \<open>
  Modelled from the spec: \<^verbatim>\<open>join()\<close> takes Created to Joined and
  advertises the services registered so far; out of order it fails with AlreadyJoined or
  AlreadyLeft.
\<close>

definition join :: "node_id \<Rightarrow> world \<Rightarrow> exn + world" where
  "join n w =
     (case state (registries w n) of
        Joined \<Rightarrow> Inl AlreadyJoined
      | Left \<Rightarrow> Inl AlreadyLeft
      | Created \<Rightarrow>
          advertise_all n (Map_values (locals (registries w n)))
            (update_registry n (\<lambda>reg. reg\<lparr>state := Joined\<rparr>) w))"

text \<open>
  Modelled from the spec: \<^verbatim>\<open>register(id, reflect)\<close> fails with
  DuplicateService if the id has a local registration; otherwise it inserts the reflect,
  under that id, into the local table and broadcasts
  \<^verbatim>\<open>service-available\<close>, which before
  \<^verbatim>\<open>join\<close> is left to \<^verbatim>\<open>join\<close>.
\<close>

definition register :: "node_id \<Rightarrow> string \<Rightarrow> LocalReflect \<Rightarrow> world \<Rightarrow> exn + world" where
  "register n sid r w =
     (if Map_has (locals (registries w n)) sid then Inl DuplicateService
      else
        let r1 = r\<lparr>service_id := sid, home := n\<rparr>;
            w1 = update_registry n (\<lambda>reg. reg\<lparr>locals := Map_set (locals reg) sid r1\<rparr>) w
        in if state (registries w n) = Joined then advertise n r1 w1 else Inr w1)"

type_synonym handle = "node_id \<times> string"

text \<open>
  Modelled from the spec: \<^verbatim>\<open>get(id)\<close> returns a handle. It is a
  live view: each access looks the id up again.
\<close>

definition get :: "node_id \<Rightarrow> string \<Rightarrow> handle" where
  "get n sid = (n, sid)"

text \<open>
  Modelled from the spec: the reflect a handle currently has: the local registration of
  the id if there is one, else its remote provider.
\<close>

definition find_reflect :: "world \<Rightarrow> handle \<Rightarrow> reflect option" where
  "find_reflect w h =
     (case Map_get (locals (registries w (fst h))) (snd h) of
        Some l \<Rightarrow> Some (Local l)
      | None \<Rightarrow>
          (case Map_get (remotes (registries w (fst h))) (snd h) of
             Some r \<Rightarrow> Some (Remote r)
           | None \<Rightarrow> None))"

text \<open>
  Modelled from the spec: \<^verbatim>\<open>handle.available\<close>: whether a reflect
  currently exists.
\<close>

definition available :: "world \<Rightarrow> handle \<Rightarrow> bool" where
  "available w h = (find_reflect w h \<noteq> None)"

text \<open>
  Modelled from the spec: \<^verbatim>\<open>handle.call(method, ...args)\<close> is
  \<^verbatim>\<open>call\<close> on the reflect of the handle; with no reflect the call
  is rejected ("service not found").
\<close>

definition handle_call ::
  "handle \<Rightarrow> string \<Rightarrow> js_value list \<Rightarrow> world \<Rightarrow> exn + (promise_ref \<times> world)" where
  "handle_call h method args w =
     (case find_reflect w h of
        None \<Rightarrow> Inr (new_promise (Rejected (ServiceNotFound (snd h))) w)
      | Some r \<Rightarrow> call reflect_apply r method args w)"

text \<open>
  Modelled from the spec: the structural check of proxy creation: the reflect advertises
  every given name.
\<close>

fun all_declared ::
  "(string \<Rightarrow> heap \<Rightarrow> exn + (bool \<times> heap)) \<Rightarrow> string list \<Rightarrow> heap \<Rightarrow> exn + bool" where
  "all_declared has [] h = Inr True"
| "all_declared has (n # ns) h =
     (case has n h of
        Inl e \<Rightarrow> Inl e
      | Inr (b, h1) \<Rightarrow> if b then all_declared has ns h1 else Inr False)"

type_synonym proxy =
  "(string \<times> (js_value list \<Rightarrow> world \<Rightarrow> exn + (promise_ref \<times> world))) list"

text \<open>
  Modelled from the spec: proxy creation (section 4.1). It fails with ContractMismatch if
  the reflect does not advertise, by name, every method and event the contract declares;
  otherwise the proxy has one method per method descriptor, which forwards its positional
  arguments to \<^verbatim>\<open>reflect.apply(name, args)\<close> and returns the
  resulting promise.
\<close>

definition as_proxy :: "ServiceContract \<Rightarrow> reflect \<Rightarrow> world \<Rightarrow> exn + proxy" where
  "as_proxy c r w =
     (case all_declared (reflect_hasMethod r) (map fst (contract_methods c)) (heap w) of
        Inl e \<Rightarrow> Inl e
      | Inr ms_ok \<Rightarrow>
          (case all_declared (reflect_hasEvent r) (map fst (contract_events c)) (heap w) of
             Inl e \<Rightarrow> Inl e
           | Inr es_ok \<Rightarrow>
               if ms_ok \<and> es_ok
               then Inr (map (\<lambda>(name, d). (name, \<lambda>args. reflect_apply r name args))
                          (contract_methods c))
               else Inl ContractMismatch))"

text \<open>
  Modelled from the spec: \<^verbatim>\<open>handle.as(contract)\<close>, meaningful on an
  available handle only (\<open>None\<close> otherwise).
\<close>

definition handle_as :: "handle \<Rightarrow> ServiceContract \<Rightarrow> world \<Rightarrow> (exn + proxy) option" where
  "handle_as h c w = map_option (\<lambda>r. as_proxy c r w) (find_reflect w h)"

text \<open>
  Modelled from the spec: the call \<^verbatim>\<open>proxy.name(...args)\<close> of a
  generated proxy method.
\<close>

definition proxy_invoke ::
  "proxy \<Rightarrow> string \<Rightarrow> js_value list \<Rightarrow> world \<Rightarrow> exn + (promise_ref \<times> world)" where
  "proxy_invoke p name args w =
     (case Map_get p name of None \<Rightarrow> Inl TypeError | Some f \<Rightarrow> f args w)"

subsection \<open>Inbound messages\<close>

text \<open>
  Modelled from the spec: on \<^verbatim>\<open>service-available\<close> from a peer, if
  the id has neither a local registration nor a provider, a Remote Reflect is constructed
  from the advertised shape and becomes the provider of the id (the first provider seen is
  kept).
\<close>

definition on_service_available ::
  "node_id \<Rightarrow> node_id \<Rightarrow> string \<Rightarrow> (string \<times> ServiceMethod) list
    \<Rightarrow> (string \<times> ServiceEvent) list \<Rightarrow> world \<Rightarrow> world" where
  "on_service_available n src sid ms es w =
     (if Map_has (locals (registries w n)) sid \<or> Map_has (remotes (registries w n)) sid then w
      else
        let (pm, h1) = alloc (heap w) (MethodMap (Map_new ms));
            (pe, h2) = alloc h1 (EventMap (Map_new es));
            r = ServiceReflect.extend (ServiceReflect_new sid pm pe) (RemoteReflect.fields n src)
        in update_registry n (\<lambda>reg. reg\<lparr>remotes := Map_set (remotes reg) sid r\<rparr>)
             (w\<lparr>heap := h2\<rparr>))"

text \<open>
  Modelled from the spec: on \<^verbatim>\<open>service-unavailable\<close> the Remote
  Reflect for that id from that peer is removed.
\<close>

definition on_service_unavailable :: "node_id \<Rightarrow> node_id \<Rightarrow> string \<Rightarrow> world \<Rightarrow> world" where
  "on_service_unavailable n src sid w =
     (case Map_get (remotes (registries w n)) sid of
        None \<Rightarrow> w
      | Some r \<Rightarrow>
          if owner r = src
          then update_registry n (\<lambda>reg. reg\<lparr>remotes := Map_delete (remotes reg) sid\<rparr>) w
          else w)"

text \<open>
  Modelled from the spec: on \<^verbatim>\<open>call-request\<close> the registry looks up
  the Local Reflect of the named service, applies the method and replies with a
  \<^verbatim>\<open>call-response\<close>, success or error, with the correlation id of
  the request.
\<close>

definition on_call_request ::
  "node_id \<Rightarrow> node_id \<Rightarrow> string \<Rightarrow> string \<Rightarrow> js_value list \<Rightarrow> nat \<Rightarrow> world \<Rightarrow> exn + world" where
  "on_call_request n src sid method args c w =
     (case Map_get (locals (registries w n)) sid of
        None \<Rightarrow>
          Inr (send n src (CallResponse c (Err (rejection_message (ServiceNotFound sid)))) w)
      | Some l \<Rightarrow>
          (case LocalReflect_apply l method args w of
             Inl e \<Rightarrow> Inl e
           | Inr (p, w1) \<Rightarrow>
               (case await w1 p of
                  Some (Resolved v) \<Rightarrow> Inr (send n src (CallResponse c (Ok v)) w1)
                | Some (Rejected r) \<Rightarrow>
                    Inr (send n src (CallResponse c (Err (rejection_message r))) w1)
                | _ \<Rightarrow> Inr w1)))"

text \<open>
  Modelled from the spec: a success payload resolves, an error payload rejects with
  RemoteInvocationError carrying the remote error message.
\<close>

fun settlement :: "payload \<Rightarrow> promise" where
  "settlement (Ok v) = Resolved v"
| "settlement (Err m) = Rejected (RemoteInvocationError m)"

text \<open>
  Modelled from the spec: on \<^verbatim>\<open>call-response\<close> the PendingCall with
  the same correlation id is settled and removed; a response with no PendingCall is
  ignored.
\<close>

definition on_call_response :: "node_id \<Rightarrow> nat \<Rightarrow> payload \<Rightarrow> world \<Rightarrow> world" where
  "on_call_response n c res w =
     (case Map_get (pending (registries w n)) c of
        None \<Rightarrow> w
      | Some (p, dst) \<Rightarrow>
          update_registry n (\<lambda>reg. reg\<lparr>pending := Map_delete (pending reg) c\<rparr>)
            (settle p (settlement res) w))"

text \<open>
  Modelled from the spec: on \<^verbatim>\<open>event-subscribe\<close> a forwarding
  listener for the requesting peer is attached to the event of the Local Reflect, and the
  subscription is acknowledged.
\<close>

definition on_event_subscribe ::
  "node_id \<Rightarrow> node_id \<Rightarrow> string \<Rightarrow> string \<Rightarrow> world \<Rightarrow> exn + world" where
  "on_event_subscribe n src sid event w =
     (case Map_get (locals (registries w n)) sid of
        None \<Rightarrow> Inr w
      | Some l \<Rightarrow>
          (case hasEvent l event (heap w) of
             Inl e \<Rightarrow> Inl e
           | Inr (declared, h) \<Rightarrow>
               if \<not> declared then Inr w
               else
                 Inr (send n src (EventSubscribeAck sid event)
                        (update_registry n
                           (\<lambda>reg. reg\<lparr>forwarding :=
                              Map_set (forwarding reg) (sid, event)
                                (add_listener src (listeners_of (forwarding reg) (sid, event)))\<rparr>)
                           w))))"

text \<open>
  Modelled from the spec: on the acknowledgement the subscriptions that wait for it
  resolve.
\<close>

definition on_event_subscribe_ack :: "node_id \<Rightarrow> string \<Rightarrow> string \<Rightarrow> world \<Rightarrow> world" where
  "on_event_subscribe_ack n sid event w =
     update_registry n (\<lambda>reg. reg\<lparr>awaiting_ack := Map_delete (awaiting_ack reg) (sid, event)\<rparr>)
       (foldl (\<lambda>w p. settle p (Resolved JUndefined) w) w
          (listeners_of (awaiting_ack (registries w n)) (sid, event)))"

text \<open>
  Modelled from the spec: on \<^verbatim>\<open>event-unsubscribe\<close> the forwarding
  listener of the requesting peer is detached.
\<close>

definition on_event_unsubscribe ::
  "node_id \<Rightarrow> node_id \<Rightarrow> string \<Rightarrow> string \<Rightarrow> world \<Rightarrow> world" where
  "on_event_unsubscribe n src sid event w =
     update_registry n
       (\<lambda>reg. reg\<lparr>forwarding :=
          Map_set (forwarding reg) (sid, event)
            (removeAll src (listeners_of (forwarding reg) (sid, event)))\<rparr>) w"

text \<open>
  Modelled from the spec: listeners are invoked with the payload of the event.
\<close>

definition fire :: "listener list \<Rightarrow> js_value list \<Rightarrow> world \<Rightarrow> world" where
  "fire ls args w = w\<lparr>fired := fired w @ map (\<lambda>l. (l, args)) ls\<rparr>"

text \<open>
  Modelled from the spec: on \<^verbatim>\<open>event-fired\<close> the payload is
  delivered to all local listeners registered against the event of the Remote Reflect.
\<close>

definition on_event_fired ::
  "node_id \<Rightarrow> string \<Rightarrow> string \<Rightarrow> js_value list \<Rightarrow> world \<Rightarrow> world" where
  "on_event_fired n sid event args w =
     fire (listeners_of (subscribers (registries w n)) (sid, event)) args w"

text \<open>
  Modelled from the spec: a local service fires an event: its listeners are invoked, and
  the event is relayed as \<^verbatim>\<open>event-fired\<close> to the peers that
  subscribed.
\<close>

definition emit :: "node_id \<Rightarrow> string \<Rightarrow> string \<Rightarrow> js_value list \<Rightarrow> world \<Rightarrow> world" where
  "emit n sid event args w =
     foldl (\<lambda>w dst. send n dst (EventFired sid event args) w)
       (fire (listeners_of (emitters (registries w n)) (sid, event)) args w)
       (listeners_of (forwarding (registries w n)) (sid, event))"

text \<open>
  Modelled from the spec: a registry handles messages between
  \<^verbatim>\<open>join\<close> and \<^verbatim>\<open>leave\<close> only; each kind of
  message has its handler.
\<close>

definition receive :: "node_id \<Rightarrow> node_id \<Rightarrow> message \<Rightarrow> world \<Rightarrow> exn + world" where
  "receive n src msg w =
     (if state (registries w n) \<noteq> Joined then Inr w
      else
        (case msg of
           ServiceAvailable sid ms es \<Rightarrow> Inr (on_service_available n src sid ms es w)
         | ServiceUnavailable sid \<Rightarrow> Inr (on_service_unavailable n src sid w)
         | CallRequest sid method args c \<Rightarrow> on_call_request n src sid method args c w
         | CallResponse c res \<Rightarrow> Inr (on_call_response n c res w)
         | EventSubscribe sid event \<Rightarrow> on_event_subscribe n src sid event w
         | EventSubscribeAck sid event \<Rightarrow> Inr (on_event_subscribe_ack n sid event w)
         | EventUnsubscribe sid event \<Rightarrow> Inr (on_event_unsubscribe n src sid event w)
         | EventFired sid event args \<Rightarrow> Inr (on_event_fired n sid event args w)))"

text \<open>
  Modelled from the spec: the transport hands a message in flight, the
  \<open>i\<close>-th, to its destination.
\<close>

definition deliver :: "nat \<Rightarrow> world \<Rightarrow> exn + world" where
  "deliver i w =
     (if i < length (wire w)
      then
        (case wire w ! i of
           (src, dst, msg) \<Rightarrow>
             receive dst src msg (w\<lparr>wire := take i (wire w) @ drop (Suc i) (wire w)\<rparr>))
      else Inr w)"

text \<open>
  Modelled from the spec: the network runs until it has settled: messages are delivered in
  send order until none is in flight, at most \<open>k\<close> of them (the
  \<^verbatim>\<open>consolidate\<close> of the test network, and the passing of time
  while a promise is awaited).
\<close>

fun run :: "nat \<Rightarrow> world \<Rightarrow> exn + world" where
  "run 0 w = Inr w"
| "run (Suc k) w =
     (if wire w = [] then Inr w
      else (case deliver 0 w of Inl e \<Rightarrow> Inl e | Inr w1 \<Rightarrow> run k w1))"

text \<open>
  Modelled from the spec: the deadline of a call passes: the PendingCall is removed and
  its promise rejected with CallTimeout.
\<close>

definition call_timeout :: "node_id \<Rightarrow> nat \<Rightarrow> world \<Rightarrow> world" where
  "call_timeout n c w =
     (case Map_get (pending (registries w n)) c of
        None \<Rightarrow> w
      | Some (p, dst) \<Rightarrow>
          update_registry n (\<lambda>reg. reg\<lparr>pending := Map_delete (pending reg) c\<rparr>)
            (settle p (Rejected CallTimeout) w))"

text \<open>
  Modelled from the spec: a peer disconnects: the PendingCalls sent to it are rejected
  with NodeUnavailable and the Remote Reflects it owns are removed.
\<close>

definition peer_disconnected :: "node_id \<Rightarrow> node_id \<Rightarrow> world \<Rightarrow> world" where
  "peer_disconnected n peer w =
     update_registry n
       (\<lambda>reg. reg\<lparr>pending := filter (\<lambda>(c, p, dst). dst \<noteq> peer) (pending reg),
                   remotes := filter (\<lambda>(sid, r). owner r \<noteq> peer) (remotes reg)\<rparr>)
       (foldl (\<lambda>w (c, p, dst). if dst = peer then settle p (Rejected NodeUnavailable) w else w)
          w (pending (registries w n)))"

text \<open>
  Modelled from the spec: \<^verbatim>\<open>unregister(id)\<close> removes the local
  entry and broadcasts \<^verbatim>\<open>service-unavailable\<close>.
\<close>

definition unregister :: "node_id \<Rightarrow> string \<Rightarrow> world \<Rightarrow> world" where
  "unregister n sid w =
     (let w1 = update_registry n (\<lambda>reg. reg\<lparr>locals := Map_delete (locals reg) sid\<rparr>) w
      in if state (registries w n) = Joined then broadcast n (ServiceUnavailable sid) w1 else w1)"

text \<open>
  Modelled from the spec: \<^verbatim>\<open>leave()\<close> takes Joined to Left,
  withdraws the advertisements of the local services and rejects the PendingCalls of the
  node with NodeUnavailable.
\<close>

definition leave :: "node_id \<Rightarrow> world \<Rightarrow> world" where
  "leave n w =
     (if state (registries w n) \<noteq> Joined then w
      else
        update_registry n (\<lambda>reg. reg\<lparr>state := Left, pending := []\<rparr>)
          (foldl (\<lambda>w (c, p, dst). settle p (Rejected NodeUnavailable) w)
             (foldl (\<lambda>w sid. broadcast n (ServiceUnavailable sid) w) w
                (map fst (locals (registries w n))))
             (pending (registries w n))))"

text \<open>
  Modelled from the spec: a subscription is not acknowledged in time: the promises that
  wait for the acknowledgement are rejected with SubscriptionFailed.
\<close>

definition subscribe_timeout :: "node_id \<Rightarrow> string \<Rightarrow> string \<Rightarrow> world \<Rightarrow> world" where
  "subscribe_timeout n sid event w =
     update_registry n (\<lambda>reg. reg\<lparr>awaiting_ack := Map_delete (awaiting_ack reg) (sid, event)\<rparr>)
       (foldl (\<lambda>w p. settle p (Rejected SubscriptionFailed) w) w
          (listeners_of (awaiting_ack (registries w n)) (sid, event)))"

subsection \<open>The test suite\<close>

text \<open>
  The two tests of \<^verbatim>\<open>Services: Remote Calls\<close>, translated from the test file up to
  the value the expectation is about; the \<^verbatim>\<open>leave\<close> and \<^verbatim>\<open>shutdown\<close> that follow it are
  left out. Each step that can throw is sequenced with \<open>bind_exn\<close>.
\<close>

definition bind_exn :: "exn + 'a \<Rightarrow> ('a \<Rightarrow> exn + 'b) \<Rightarrow> exn + 'b" where
  "bind_exn x f = (case x of Inl e \<Rightarrow> Inl e | Inr a \<Rightarrow> f a)"

text \<open>
  The contract \<^verbatim>\<open>TestService\<close> and the implementation of \<^verbatim>\<open>hello\<close> the tests register:
  \<^verbatim>\<open>'Hello ' + what + '!'\<close>.
\<close>

definition TestService :: "exn + ServiceContract" where
  "TestService = describeMethod ServiceContract_new ''hello'' [StringType] StringType"

definition hello :: "js_value list \<Rightarrow> outcome" where
  "hello args = Returns (JString (''Hello '' @ to_string (argument args 0) @ ''!''))"

definition hello_impl :: implementation where
  "hello_impl = [(''hello'', hello)]"

text \<open>
  What both tests do first: the two nodes are linked, both registries join, node a
  registers \<^verbatim>\<open>test\<close>, and the network consolidates. \<open>fuel\<close> bounds the messages
  delivered while the test awaits. The implementation object is a parameter,
  \<open>hello_impl\<close> being the one of the tests.
\<close>

definition test_setup :: "implementation \<Rightarrow> nat \<Rightarrow> exn + world" where
  "test_setup i fuel =
     bind_exn TestService (\<lambda>contract.
     bind_exn (join ''a'' (bidirectional ''a'' ''b'' TestNetwork_new)) (\<lambda>w1.
     bind_exn (join ''b'' w1) (\<lambda>w2.
     bind_exn (implement contract i w2) (\<lambda>(r, w3).
     bind_exn (register ''a'' ''test'' r w3) (\<lambda>w4.
     run fuel w4)))))"

text \<open>
  The rest of each test. The result is the state of the promise \<^verbatim>\<open>s\<close> that the test
  awaits and compares with \<^verbatim>\<open>'Hello world!'\<close>; a test that finds the service unavailable
  throws \<^verbatim>\<open>Error('Service not found')\<close>.
\<close>

definition test_non_proxy :: "nat \<Rightarrow> exn + promise option" where
  "test_non_proxy fuel =
     bind_exn (test_setup hello_impl fuel) (\<lambda>w.
       let helloService = get ''b'' ''test'' in
       if available w helloService
       then
         bind_exn (handle_call helloService ''hello'' [JString ''world''] w) (\<lambda>(s, w1).
         bind_exn (run fuel w1) (\<lambda>w2. Inr (await w2 s)))
       else Inr (Some (Rejected (Thrown (JError ''Service not found'')))))"

definition test_proxy :: "nat \<Rightarrow> exn + promise option" where
  "test_proxy fuel =
     bind_exn TestService (\<lambda>contract.
     bind_exn (test_setup hello_impl fuel) (\<lambda>w.
       let helloService = get ''b'' ''test'' in
       if available w helloService
       then
         (case handle_as helloService contract w of
            None \<Rightarrow> Inl TypeError
          | Some made \<Rightarrow>
              bind_exn made (\<lambda>proxy.
              bind_exn (proxy_invoke proxy ''hello'' [JString ''world''] w) (\<lambda>(s, w1).
              bind_exn (run fuel w1) (\<lambda>w2. Inr (await w2 s)))))
       else Inr (Some (Rejected (Thrown (JError ''Service not found''))))))"

text \<open>
  The network of the tests once it has settled, the contract, the Remote Reflect node b
  then holds for \<^verbatim>\<open>test\<close>, and the same network with an implementation of \<^verbatim>\<open>hello\<close>
  that throws \<^verbatim>\<open>Error('boom')\<close>, with the Local Reflect node a then holds.
\<close>

definition world_of :: "exn + world \<Rightarrow> world" where
  "world_of x = (case x of Inl e \<Rightarrow> TestNetwork_new | Inr w \<Rightarrow> w)"

definition test_world :: world where
  "test_world = world_of (test_setup hello_impl 2)"

definition test_contract :: ServiceContract where
  "test_contract = \<lparr> contract_methods = [(''hello'', hello_method)], contract_events = [] \<rparr>"

definition test_remote :: RemoteReflect where
  "test_remote =
     \<lparr> service_id = ''test'', methods_map = 2, events_map = 3, remote_home = ''b'',
       owner = ''a'' \<rparr>"

definition boom :: "js_value list \<Rightarrow> outcome" where
  "boom args = Throws (JError ''boom'')"

definition boom_impl :: implementation where
  "boom_impl = [(''hello'', boom)]"

definition boom_world :: world where
  "boom_world = world_of (test_setup boom_impl 2)"

definition boom_local :: LocalReflect where
  "boom_local =
     \<lparr> service_id = ''test'', methods_map = 0, events_map = 1, home = ''a'',
       impl = boom_impl \<rparr>"

text \<open>
  Two calls from node b whose responses arrive in the reverse order: both requests are
  delivered to node a, then the response to the second call, then the response to the
  first. The result is the state of the first promise before its response arrives, and
  the states of both promises at the end.
\<close>

definition two_calls_reversed :: "exn + (promise option \<times> promise option \<times> promise option)" where
  "two_calls_reversed =
     bind_exn (handle_call (get ''b'' ''test'') ''hello'' [JString ''x''] test_world) (\<lambda>(p1, w1).
     bind_exn (handle_call (get ''b'' ''test'') ''hello'' [JString ''y''] w1) (\<lambda>(p2, w2).
     bind_exn (deliver 0 w2) (\<lambda>w3.
     bind_exn (deliver 0 w3) (\<lambda>w4.
     bind_exn (deliver 1 w4) (\<lambda>w5.
     bind_exn (deliver 0 w5) (\<lambda>w6.
     Inr (await w5 p1, await w6 p1, await w6 p2)))))))"

text \<open>The references to the descriptor maps of a reflect of either class.\<close>

fun reflect_methods :: "reflect \<Rightarrow> ref" where
  "reflect_methods (Local l) = methods_map l"
| "reflect_methods (Remote r) = methods_map r"

fun reflect_events :: "reflect \<Rightarrow> ref" where
  "reflect_events (Local l) = events_map l"
| "reflect_events (Remote r) = events_map r"

section \<open>Properties of \<^verbatim>\<open>ServiceReflect\<close>\<close>

lemma Map_has_iff_get: "Map_has m k \<longleftrightarrow> Map_get m k \<noteq> None"
  by (simp add: Map_has_def Map_get_def map_of_eq_None_iff)

lemma or_null_eq_Null: "or_null x = Null \<longleftrightarrow> x = None"
  by (cases x) simp_all


lemma deref_test_heap:
  "deref test_heap 0 = Some (MethodMap [(''hello'', hello_method)])"
  "deref test_heap 1 = Some (EventMap [(''changed'', changed_event)])"
  by (simp_all add: deref_def test_heap_def)

lemma test_reflect_maps: "methods_map test_reflect = 0" "events_map test_reflect = 1"
  by (simp_all add: test_reflect_def ServiceReflect_new_def)

subsection \<open>\<^verbatim>\<open>call\<close> and \<^verbatim>\<open>apply\<close>\<close>

text \<open>
  C1. For every reflect, whatever \<^verbatim>\<open>apply\<close> its class supplies, every method name and
  every argument list, \<^verbatim>\<open>call(method, ...args)\<close> has the outcome of
  \<^verbatim>\<open>apply(method, args)\<close> from the same state: the same promise and the same state
  afterwards. With no
  argument after the method name the rest parameter is the empty array, and
  \<^verbatim>\<open>call(method)\<close> is \<^verbatim>\<open>apply(method, [])\<close>.
\<close>

theorem call_is_apply:
  "call apply this m a s = apply this m a s \<and> call apply this m [] s = apply this m [] s"
  by (simp add: call_def)

subsection \<open>Lookups\<close>

text \<open>
  C5. Let a reflect be constructed with references to a method map \<open>ms\<close> and an event
  map \<open>es\<close>. Then \<^verbatim>\<open>getMethod(name)\<close> returns the descriptor the method map holds for
  \<open>name\<close>, and \<^verbatim>\<open>null\<close> when the map has no such key; \<^verbatim>\<open>hasMethod(name)\<close> is true exactly
  when \<open>name\<close> is a key of the method map; \<^verbatim>\<open>getEvent\<close> and \<^verbatim>\<open>hasEvent\<close> do the same
  over the event map. Each of the four returns the store it was given: nothing the
  reflect refers to is modified.
\<close>

theorem lookups_are_pure:
  assumes "deref h pm = Some (MethodMap ms)" and "deref h pe = Some (EventMap es)"
  shows "getMethod (ServiceReflect_new i pm pe) n h
           = Inr (case map_of ms n of None \<Rightarrow> Null | Some d \<Rightarrow> NonNull d, h)
       \<and> hasMethod (ServiceReflect_new i pm pe) n h = Inr (n \<in> fst ` set ms, h)
       \<and> getEvent (ServiceReflect_new i pm pe) n h
           = Inr (case map_of es n of None \<Rightarrow> Null | Some d \<Rightarrow> NonNull d, h)
       \<and> hasEvent (ServiceReflect_new i pm pe) n h = Inr (n \<in> fst ` set es, h)"
  using assms
  by (simp add: getMethod_def hasMethod_def getEvent_def hasEvent_def ServiceReflect_new_def
      Map_get_def Map_has_def split: option.split)

theorem lookups_are_pure_witness:
  "deref test_heap 0 = Some (MethodMap [(''hello'', hello_method)])
   \<and> deref test_heap 1 = Some (EventMap [(''changed'', changed_event)])
   \<and> getMethod (ServiceReflect_new ''test'' 0 1) ''hello'' test_heap
       = Inr (NonNull hello_method, test_heap)
   \<and> hasMethod (ServiceReflect_new ''test'' 0 1) ''hello'' test_heap = Inr (True, test_heap)
   \<and> getEvent (ServiceReflect_new ''test'' 0 1) ''hello'' test_heap = Inr (Null, test_heap)
   \<and> hasEvent (ServiceReflect_new ''test'' 0 1) ''hello'' test_heap = Inr (False, test_heap)"
  using deref_test_heap
    lookups_are_pure [OF deref_test_heap, of "''test''" "''hello''"]
  by simp

text \<open>
  C10. For every reflect whose two fields refer to maps, and every name, \<^verbatim>\<open>hasMethod\<close>
  and \<^verbatim>\<open>getMethod\<close> both return, and \<^verbatim>\<open>hasMethod(name)\<close> is true if and only if
  \<^verbatim>\<open>getMethod(name)\<close> is not \<^verbatim>\<open>null\<close>; likewise \<^verbatim>\<open>hasEvent\<close> and \<^verbatim>\<open>getEvent\<close>.
\<close>

theorem has_iff_get_non_null:
  assumes "deref h (methods_map this) = Some (MethodMap ms)"
      and "deref h (events_map this) = Some (EventMap es)"
  shows "(\<exists>b x. hasMethod this n h = Inr (b, h) \<and> getMethod this n h = Inr (x, h)
            \<and> (b \<longleftrightarrow> x \<noteq> Null))
       \<and> (\<exists>b x. hasEvent this n h = Inr (b, h) \<and> getEvent this n h = Inr (x, h)
            \<and> (b \<longleftrightarrow> x \<noteq> Null))"
  using assms
  by (simp add: getMethod_def hasMethod_def getEvent_def hasEvent_def Map_has_iff_get
      or_null_eq_Null)

theorem has_iff_get_non_null_witness:
  "deref test_heap (methods_map test_reflect) = Some (MethodMap [(''hello'', hello_method)])
   \<and> deref test_heap (events_map test_reflect) = Some (EventMap [(''changed'', changed_event)])
   \<and> (\<exists>b x. hasMethod test_reflect ''hello'' test_heap = Inr (b, test_heap)
          \<and> getMethod test_reflect ''hello'' test_heap = Inr (x, test_heap) \<and> (b \<longleftrightarrow> x \<noteq> Null))
   \<and> (\<exists>b x. hasEvent test_reflect ''hello'' test_heap = Inr (b, test_heap)
          \<and> getEvent test_reflect ''hello'' test_heap = Inr (x, test_heap) \<and> (b \<longleftrightarrow> x \<noteq> Null))"
proof -
  have m: "deref test_heap (methods_map test_reflect) = Some (MethodMap [(''hello'', hello_method)])"
    by (simp add: test_reflect_maps deref_def test_heap_def)
  have e: "deref test_heap (events_map test_reflect) = Some (EventMap [(''changed'', changed_event)])"
    by (simp add: test_reflect_maps deref_def test_heap_def)
  from has_iff_get_non_null [OF m e, of "''hello''"] m e show ?thesis
    by blast
qed

subsection \<open>Listings\<close>

lemma Map_set_fresh: "k \<notin> fst ` set m \<Longrightarrow> Map_set m k v = m @ [(k, v)]"
  by (induction m) auto

lemma foldl_Map_set_distinct:
  "distinct (map fst (m @ kvs)) \<Longrightarrow> foldl (\<lambda>m (k, v). Map_set m k v) m kvs = m @ kvs"
proof (induction kvs arbitrary: m)
  case Nil
  then show ?case by simp
next
  case (Cons kv kvs)
  obtain k v where kv: "kv = (k, v)" by (cases kv)
  from Cons.prems have fresh: "k \<notin> fst ` set m" by (auto simp: kv)
  from Cons.prems have "distinct (map fst ((m @ [(k, v)]) @ kvs))" by (auto simp: kv)
  from Cons.IH [OF this] show ?case by (simp add: kv Map_set_fresh [OF fresh])
qed

lemma Map_new_distinct: "distinct (map fst kvs) \<Longrightarrow> Map_new kvs = kvs"
  using foldl_Map_set_distinct [of "[]" kvs] by (simp add: Map_new_def)

text \<open>
  C6. Let the method map of a reflect be the map into which the entries \<open>mkvs\<close>, of
  distinct names, were inserted in this order, and its event map the one of the entries
  \<open>ekvs\<close>. Then the getter \<^verbatim>\<open>methods\<close> returns a new array holding the method
  descriptors in the order of insertion, and the getter \<^verbatim>\<open>events\<close> a new array
  holding the event descriptors in the order of insertion.
\<close>

theorem listings_in_insertion_order:
  assumes "deref h (methods_map this) = Some (MethodMap (Map_new mkvs))"
      and "deref h (events_map this) = Some (EventMap (Map_new ekvs))"
      and "distinct (map fst mkvs)" and "distinct (map fst ekvs)"
  shows "methods this h = Inr (length h, h @ [MethodArray (map snd mkvs)])
       \<and> events this h = Inr (length h, h @ [EventArray (map snd ekvs)])"
  using assms
  by (simp add: methods_def events_def alloc_def Map_values_def Map_new_distinct)

theorem listings_in_insertion_order_witness:
  "deref two_heap (methods_map test_reflect) = Some (MethodMap (Map_new two_methods))
   \<and> deref two_heap (events_map test_reflect) = Some (EventMap (Map_new two_events))
   \<and> distinct (map fst two_methods) \<and> distinct (map fst two_events)
   \<and> methods test_reflect two_heap
       = Inr (2, two_heap @ [MethodArray [bye_method, hello_method]])
   \<and> events test_reflect two_heap
       = Inr (2, two_heap @ [EventArray [changed_event, closed_event]])"
proof -
  have m: "deref two_heap (methods_map test_reflect) = Some (MethodMap (Map_new two_methods))"
    by (simp add: test_reflect_maps deref_def two_heap_def)
  have e: "deref two_heap (events_map test_reflect) = Some (EventMap (Map_new two_events))"
    by (simp add: test_reflect_maps deref_def two_heap_def)
  have dm: "distinct (map fst two_methods)"
    by (simp add: two_methods_def)
  have de: "distinct (map fst two_events)"
    by (simp add: two_events_def)
  have l: "length two_heap = 2"
    by (simp add: two_heap_def)
  from listings_in_insertion_order [OF m e dm de] m e dm de show ?thesis
    by (simp add: l two_methods_def two_events_def)
qed

subsection \<open>The arrays of the getters are new objects\<close>

lemma deref_mutate_alloc:
  "deref h p = Some c \<Longrightarrow> deref (mutate (h @ [c1]) (length h) c2) p = Some c"
  by (auto simp: deref_def mutate_def nth_append split: if_splits)

lemma mutate_alloc: "mutate (h @ [c1]) (length h) c2 = h @ [c2]"
  by (simp add: mutate_def)

lemma getter_result:
  assumes "methods this h = Inr (a, h1) \<or> events this h = Inr (a, h1)"
  shows "a = length h \<and> (\<exists>c1. h1 = h @ [c1])"
  using assms
  by (auto simp: methods_def events_def alloc_def split: option.splits cell.splits)

text \<open>
  C9. Let a reflect refer to a method map \<open>ms\<close> and an event map \<open>es\<close>, let \<open>a\<close> be
  the array a read of \<^verbatim>\<open>methods\<close> or of \<^verbatim>\<open>events\<close> returned, and let the contents of
  that array then be replaced by anything. The array is an object that did not exist
  before the read; after the mutation the reflect's two maps are what they were,
  \<^verbatim>\<open>getMethod\<close>, \<^verbatim>\<open>hasMethod\<close>, \<^verbatim>\<open>getEvent\<close> and \<^verbatim>\<open>hasEvent\<close> answer as before the read
  for every name, and a later read of \<^verbatim>\<open>methods\<close> or \<^verbatim>\<open>events\<close> returns yet another
  array, which holds the descriptors of the map. (Only the array is new: its elements
  are the descriptors of the map themselves.)
\<close>

theorem getters_return_fresh_arrays:
  assumes m: "deref h (methods_map this) = Some (MethodMap ms)"
      and e: "deref h (events_map this) = Some (EventMap es)"
      and g: "methods this h = Inr (a, h1) \<or> events this h = Inr (a, h1)"
      and mu: "h2 = mutate h1 a c"
  shows "deref h a = None
       \<and> deref h2 (methods_map this) = Some (MethodMap ms)
       \<and> deref h2 (events_map this) = Some (EventMap es)
       \<and> map_sum id fst (getMethod this n h2) = map_sum id fst (getMethod this n h)
       \<and> map_sum id fst (hasMethod this n h2) = map_sum id fst (hasMethod this n h)
       \<and> map_sum id fst (getEvent this n h2) = map_sum id fst (getEvent this n h)
       \<and> map_sum id fst (hasEvent this n h2) = map_sum id fst (hasEvent this n h)
       \<and> (\<exists>a' h3. methods this h2 = Inr (a', h3) \<and> a' \<noteq> a
            \<and> deref h3 a' = Some (MethodArray (Map_values ms)))
       \<and> (\<exists>a' h3. events this h2 = Inr (a', h3) \<and> a' \<noteq> a
            \<and> deref h3 a' = Some (EventArray (Map_values es)))"
proof -
  from getter_result [OF g] obtain c1 where a: "a = length h" and h1: "h1 = h @ [c1]"
    by blast
  have h2: "h2 = h @ [c]"
    by (simp add: mu a h1 mutate_alloc)
  have fresh: "deref h a = None"
    by (simp add: a deref_def)
  have m2: "deref h2 (methods_map this) = Some (MethodMap ms)"
    using deref_mutate_alloc [OF m] by (simp add: h2 mutate_alloc)
  have e2: "deref h2 (events_map this) = Some (EventMap es)"
    using deref_mutate_alloc [OF e] by (simp add: h2 mutate_alloc)
  have lookups:
    "map_sum id fst (getMethod this n h2) = map_sum id fst (getMethod this n h)"
    "map_sum id fst (hasMethod this n h2) = map_sum id fst (hasMethod this n h)"
    "map_sum id fst (getEvent this n h2) = map_sum id fst (getEvent this n h)"
    "map_sum id fst (hasEvent this n h2) = map_sum id fst (hasEvent this n h)"
    by (simp_all add: getMethod_def hasMethod_def getEvent_def hasEvent_def m e m2 e2)
  have lm: "methods this h2 = Inr (Suc a, h2 @ [MethodArray (Map_values ms)])"
    by (simp add: methods_def m2 alloc_def) (simp add: h2 a)
  have le: "events this h2 = Inr (Suc a, h2 @ [EventArray (Map_values es)])"
    by (simp add: events_def e2 alloc_def) (simp add: h2 a)
  have d: "deref (h2 @ [x]) (Suc a) = Some x" for x
    by (simp add: deref_def h2 a nth_append)
  show ?thesis
    using fresh m2 e2 lookups lm le d by simp
qed

theorem getters_return_fresh_arrays_witness:
  "deref test_heap (methods_map test_reflect) = Some (MethodMap [(''hello'', hello_method)])
   \<and> deref test_heap (events_map test_reflect) = Some (EventMap [(''changed'', changed_event)])
   \<and> methods test_reflect test_heap = Inr (2, test_heap @ [MethodArray [hello_method]])
   \<and> deref test_heap 2 = None
   \<and> map_sum id fst
        (getMethod test_reflect ''hello''
          (mutate (test_heap @ [MethodArray [hello_method]]) 2 (MethodArray [])))
       = Inr (NonNull hello_method)
   \<and> (\<exists>a' h3. methods test_reflect
                  (mutate (test_heap @ [MethodArray [hello_method]]) 2 (MethodArray []))
                = Inr (a', h3)
          \<and> a' \<noteq> 2 \<and> deref h3 a' = Some (MethodArray [hello_method]))"
proof -
  have m: "deref test_heap (methods_map test_reflect) = Some (MethodMap [(''hello'', hello_method)])"
    by (simp add: test_reflect_maps deref_def test_heap_def)
  have e: "deref test_heap (events_map test_reflect) = Some (EventMap [(''changed'', changed_event)])"
    by (simp add: test_reflect_maps deref_def test_heap_def)
  have g: "methods test_reflect test_heap = Inr (2, test_heap @ [MethodArray [hello_method]])"
    by (simp add: methods_def m alloc_def Map_values_def) (simp add: test_heap_def)
  have g': "methods test_reflect test_heap = Inr (2, test_heap @ [MethodArray [hello_method]])
      \<or> events test_reflect test_heap = Inr (2, test_heap @ [MethodArray [hello_method]])"
    using g by simp
  have r: "map_sum id fst (getMethod test_reflect ''hello'' test_heap) = Inr (NonNull hello_method)"
    by (simp add: getMethod_def m Map_get_def)
  from getters_return_fresh_arrays [OF m e g' refl, of "MethodArray []" "''hello''"] m e g r
  show ?thesis
    by (simp add: Map_values_def)
qed

section \<open>Properties of the service layer\<close>

subsection \<open>Auxiliary facts\<close>

lemma hasMethod_at:
  "deref h (methods_map r) = Some (MethodMap ms) \<Longrightarrow> hasMethod r m h = Inr (m \<in> fst ` set ms, h)"
  by (simp add: hasMethod_def Map_has_def)

lemma hasEvent_at:
  "deref h (events_map r) = Some (EventMap es) \<Longrightarrow> hasEvent r ev h = Inr (ev \<in> fst ` set es, h)"
  by (simp add: hasEvent_def Map_has_def)

lemma Map_get_Map_set: "Map_get (Map_set m k v) k' = (if k' = k then Some v else Map_get m k')"
  by (induction m) (auto simp: Map_get_def)

lemma Map_get_Map_delete: "Map_get (Map_delete m k) k' = (if k' = k then None else Map_get m k')"
  by (induction m) (auto simp: Map_get_def Map_delete_def)

lemma run_quiescent: "wire w = [] \<Longrightarrow> run k w = Inr w"
  by (cases k) simp_all

lemma deliver_head:
  "wire w = (src, dst, msg) # rest \<Longrightarrow> deliver 0 w = receive dst src msg (w\<lparr>wire := rest\<rparr>)"
  by (simp add: deliver_def drop_Suc)

lemma at_least_two: "2 \<le> fuel \<Longrightarrow> \<exists>k. fuel = Suc (Suc k)"
  by (metis Suc_le_D numeral_2_eq_2 Suc_le_mono)

lemmas scenario_defs =
  test_setup_def test_non_proxy_def test_proxy_def bind_exn_def TestService_def describeMethod_def
  ServiceContract_new_def Map_has_def Map_get_def join_def bidirectional_def TestNetwork_new_def
  Services_new_def update_registry_def Map_values_def implement_def alloc_def
  ServiceReflect.extend_def ServiceReflect_new_def LocalReflect.fields_def RemoteReflect.fields_def
  register_def advertise_def contract_shape_def deref_def broadcast_def peers_def send_def
  deliver_def receive_def on_service_available_def Map_new_def get_def available_def
  find_reflect_def handle_call_def call_def RemoteReflect_apply_def hasMethod_def new_promise_def
  on_call_request_def LocalReflect_apply_def hello_def argument_def await_def on_call_response_def
  settle_def Map_delete_def handle_as_def as_proxy_def proxy_invoke_def hasEvent_def Let_def
  hello_impl_def

lemma test_setup_settles:
  "test_setup i (Suc k) =
     (if Map_has i ''hello''
      then Inr \<lparr> heap = [MethodMap [(''hello'', hello_method)], EventMap [],
                          MethodMap [(''hello'', hello_method)], EventMap []],
                 promises = [],
                 registries = (\<lambda>n. Services_new)
                   (''a'' := Services_new\<lparr>state := Joined,
                      locals := [(''test'', \<lparr> service_id = ''test'', methods_map = 0,
                                   events_map = 1, home = ''a'', impl = i \<rparr>)]\<rparr>,
                    ''b'' := Services_new\<lparr>state := Joined, remotes := [(''test'', test_remote)]\<rparr>),
                 links = [(''a'', ''b'')], wire = [], fired = [] \<rparr>
      else Inl InvalidImplementation)"
  by (simp add: scenario_defs run_quiescent hello_method_def test_remote_def numeral_2_eq_2
      numeral_3_eq_3)

lemma test_world_eq:
  "test_world =
     \<lparr> heap = [MethodMap [(''hello'', hello_method)], EventMap [],
               MethodMap [(''hello'', hello_method)], EventMap []],
       promises = [],
       registries = (\<lambda>n. Services_new)
         (''a'' := Services_new\<lparr>state := Joined,
            locals := [(''test'', \<lparr> service_id = ''test'', methods_map = 0,
                         events_map = 1, home = ''a'', impl = hello_impl \<rparr>)]\<rparr>,
          ''b'' := Services_new\<lparr>state := Joined, remotes := [(''test'', test_remote)]\<rparr>),
       links = [(''a'', ''b'')], wire = [], fired = [] \<rparr>"
  by (simp add: test_world_def numeral_2_eq_2 test_setup_settles world_of_def Map_has_def
      hello_impl_def)

lemma boom_world_eq:
  "boom_world =
     \<lparr> heap = [MethodMap [(''hello'', hello_method)], EventMap [],
               MethodMap [(''hello'', hello_method)], EventMap []],
       promises = [],
       registries = (\<lambda>n. Services_new)
         (''a'' := Services_new\<lparr>state := Joined, locals := [(''test'', boom_local)]\<rparr>,
          ''b'' := Services_new\<lparr>state := Joined, remotes := [(''test'', test_remote)]\<rparr>),
       links = [(''a'', ''b'')], wire = [], fired = [] \<rparr>"
  by (simp add: boom_world_def numeral_2_eq_2 test_setup_settles world_of_def Map_has_def
      boom_impl_def boom_local_def)


lemma TestService_eq: "TestService = Inr test_contract"
  by (simp add: TestService_def describeMethod_def ServiceContract_new_def Map_has_def
      test_contract_def hello_method_def)

lemma test_world_heap:
  "heap test_world = [MethodMap [(''hello'', hello_method)], EventMap [],
                      MethodMap [(''hello'', hello_method)], EventMap []]"
  by (simp add: test_world_eq)

lemma test_remote_maps:
  "deref (heap test_world) (methods_map test_remote) = Some (MethodMap [(''hello'', hello_method)])"
  "deref (heap test_world) (events_map test_remote) = Some (EventMap [])"
  by (simp_all add: test_world_heap test_remote_def deref_def)

lemma find_test_remote: "find_reflect test_world (get ''b'' ''test'') = Some (Remote test_remote)"
  by (simp add: test_world_eq find_reflect_def get_def Map_get_def Services_new_def)

lemma RemoteReflect_apply_declared:
  assumes "deref (heap w) (methods_map r) = Some (MethodMap ms)" and "m \<in> fst ` set ms"
  shows "RemoteReflect_apply r m a w =
     Inr (length (promises w),
          w\<lparr>promises := promises w @ [Pending],
            registries := (registries w)(remote_home r :=
               (registries w (remote_home r))
                 \<lparr>pending := Map_set (pending (registries w (remote_home r)))
                     (next_correlation (registries w (remote_home r)))
                     (length (promises w), owner r),
                  next_correlation := Suc (next_correlation (registries w (remote_home r)))\<rparr>),
            wire := wire w @ [(remote_home r, owner r,
               CallRequest (service_id r) m a (next_correlation (registries w (remote_home r))))]\<rparr>)"
  using assms
  by (simp add: RemoteReflect_apply_def hasMethod_at new_promise_def update_registry_def send_def
      Let_def)

lemma LocalReflect_apply_declared:
  assumes "deref (heap w) (methods_map l) = Some (MethodMap ms)" and "m \<in> fst ` set ms"
      and "Map_get (impl l) m = Some f"
  shows "LocalReflect_apply l m a w =
     Inr (length (promises w),
          w\<lparr>promises := promises w @
             [case f a of Returns v \<Rightarrow> Resolved v | Throws e \<Rightarrow> Rejected (Thrown e)]\<rparr>)"
  using assms
  by (simp add: LocalReflect_apply_def hasMethod_at new_promise_def split: outcome.split)

lemma on_call_response_pending:
  assumes "Map_get (pending (registries w n)) c = Some (p, dst)"
  shows "on_call_response n c x w =
     (settle p (settlement x) w)
       \<lparr>registries := (registries w)(n := (registries w n)\<lparr>pending := Map_delete (pending (registries w n)) c\<rparr>)\<rparr>"
  using assms by (simp add: on_call_response_def update_registry_def settle_def)

lemma Map_get_as_proxy_entries:
  "m \<in> fst ` set ms \<Longrightarrow>
   Map_get (map (\<lambda>(name, d). (name, \<lambda>args. reflect_apply r name args)) ms) m
     = Some (\<lambda>args. reflect_apply r m args)"
  by (induction ms) (auto simp: Map_get_def)

subsection \<open>The proxy and \<^verbatim>\<open>call\<close>\<close>

text \<open>
  C2. Let a handle be available with reflect \<open>r\<close>, let \<^verbatim>\<open>as(contract)\<close> on it succeed
  with the proxy \<open>p\<close> (the reflect satisfies the contract), and let \<open>m\<close> be a method the
  contract declares. From any state in which the handle still has the reflect \<open>r\<close>, and
  for every argument list, the proxy method \<^verbatim>\<open>p.m(...a)\<close> and \<^verbatim>\<open>handle.call(m, ...a)\<close>
  have the same outcome: the same promise and the same state afterwards, hence the same
  resolved value.
\<close>

theorem proxy_is_call:
  assumes "find_reflect w h = Some r"
      and "as_proxy c r w = Inr p"
      and "m \<in> fst ` set (contract_methods c)"
      and "find_reflect w1 h = Some r"
  shows "handle_as h c w = Some (Inr p) \<and> proxy_invoke p m a w1 = handle_call h m a w1"
proof -
  from assms(2)
  have p: "p = map (\<lambda>(name, d). (name, \<lambda>args. reflect_apply r name args)) (contract_methods c)"
    by (auto simp: as_proxy_def split: sum.splits if_splits)
  show ?thesis
    using assms(1,2,4) Map_get_as_proxy_entries [OF assms(3), of r]
    by (simp add: handle_as_def proxy_invoke_def handle_call_def call_def p)
qed

theorem proxy_is_call_witness:
  "find_reflect test_world (get ''b'' ''test'') = Some (Remote test_remote)
   \<and> as_proxy test_contract (Remote test_remote) test_world
       = Inr [(''hello'', reflect_apply (Remote test_remote) ''hello'')]
   \<and> ''hello'' \<in> fst ` set (contract_methods test_contract)
   \<and> handle_as (get ''b'' ''test'') test_contract test_world
       = Some (Inr [(''hello'', reflect_apply (Remote test_remote) ''hello'')])
   \<and> proxy_invoke [(''hello'', reflect_apply (Remote test_remote) ''hello'')] ''hello''
         [JString ''world''] test_world
       = handle_call (get ''b'' ''test'') ''hello'' [JString ''world''] test_world"
proof -
  have p: "as_proxy test_contract (Remote test_remote) test_world
      = Inr [(''hello'', reflect_apply (Remote test_remote) ''hello'')]"
    by (simp add: as_proxy_def test_contract_def hasMethod_at [OF test_remote_maps(1)])
  have d: "''hello'' \<in> fst ` set (contract_methods test_contract)"
    by (simp add: test_contract_def)
  from proxy_is_call [OF find_test_remote p d find_test_remote, of "[JString ''world'']"]
    find_test_remote p d
  show ?thesis by simp
qed

subsection \<open>The reference scenario\<close>

text \<open>
  C3. In the network of the tests (nodes a and b linked, both joined, a registers
  \<^verbatim>\<open>test\<close> with the implementation that returns \<^verbatim>\<open>'Hello ' + what + '!'\<close>, the network
  settles), the promise node b obtains from \<^verbatim>\<open>call('hello', 'world')\<close>, and the promise
  it obtains from \<^verbatim>\<open>as(TestService).hello('world')\<close>, resolve to \<^verbatim>\<open>'Hello world!'\<close>: as
  soon as two messages may be delivered while the test awaits, both tests find the
  service available and read that value.
\<close>

theorem reference_scenario:
  assumes "2 \<le> fuel"
  shows "test_non_proxy fuel = Inr (Some (Resolved (JString ''Hello world!'')))
       \<and> test_proxy fuel = Inr (Some (Resolved (JString ''Hello world!'')))"
proof -
  from at_least_two [OF assms] obtain k where k: "fuel = Suc (Suc k)" ..
  show ?thesis
    unfolding k by (simp add: scenario_defs run_quiescent)
qed

theorem reference_scenario_witness:
  "(2::nat) \<le> 2
   \<and> test_non_proxy 2 = Inr (Some (Resolved (JString ''Hello world!'')))
   \<and> test_proxy 2 = Inr (Some (Resolved (JString ''Hello world!'')))"
  using reference_scenario [of 2] by simp

subsection \<open>Unknown names\<close>

text \<open>
  C4. For every reflect, local or remote, whose fields refer to a method map \<open>ms\<close> and
  an event map \<open>es\<close>: if \<open>name\<close> is not a key of \<open>ms\<close>, \<^verbatim>\<open>apply(name, args)\<close> returns
  a promise that is already rejected with UnknownMethod; if \<open>name\<close> is not a key of
  \<open>es\<close>, \<^verbatim>\<open>subscribe(name, l)\<close> and \<^verbatim>\<open>unsubscribe(name, l)\<close> return a promise that is
  already rejected with UnknownEvent. In each case the new promise is the only change
  of the state: no message is sent, no PendingCall and no listener is registered.
\<close>

theorem unknown_names_rejected:
  assumes "deref (heap w) (reflect_methods r) = Some (MethodMap ms)"
      and "deref (heap w) (reflect_events r) = Some (EventMap es)"
  shows "(name \<notin> fst ` set ms \<longrightarrow>
            reflect_apply r name args w
              = Inr (length (promises w),
                     w\<lparr>promises := promises w @ [Rejected (UnknownMethod name)]\<rparr>))
       \<and> (name \<notin> fst ` set es \<longrightarrow>
            reflect_subscribe r name l w
              = Inr (length (promises w),
                     w\<lparr>promises := promises w @ [Rejected (UnknownEvent name)]\<rparr>)
          \<and> reflect_unsubscribe r name l w
              = Inr (length (promises w),
                     w\<lparr>promises := promises w @ [Rejected (UnknownEvent name)]\<rparr>))"
proof (cases r)
  case (Local x)
  with assms show ?thesis
    by (simp add: LocalReflect_apply_def LocalReflect_subscribe_def LocalReflect_unsubscribe_def
        hasMethod_at hasEvent_at new_promise_def)
next
  case (Remote x)
  with assms show ?thesis
    by (simp add: RemoteReflect_apply_def RemoteReflect_subscribe_def
        RemoteReflect_unsubscribe_def hasMethod_at hasEvent_at new_promise_def)
qed

theorem unknown_names_rejected_witness:
  "deref (heap test_world) (reflect_methods (Remote test_remote))
     = Some (MethodMap [(''hello'', hello_method)])
   \<and> deref (heap test_world) (reflect_events (Remote test_remote)) = Some (EventMap [])
   \<and> ''bye'' \<notin> fst ` set [(''hello'', hello_method)]
   \<and> ''bye'' \<notin> fst ` set ([] :: (string \<times> ServiceEvent) list)
   \<and> reflect_apply (Remote test_remote) ''bye'' [] test_world
       = Inr (0, test_world\<lparr>promises := [Rejected (UnknownMethod ''bye'')]\<rparr>)
   \<and> reflect_subscribe (Remote test_remote) ''bye'' 7 test_world
       = Inr (0, test_world\<lparr>promises := [Rejected (UnknownEvent ''bye'')]\<rparr>)
   \<and> reflect_unsubscribe (Remote test_remote) ''bye'' 7 test_world
       = Inr (0, test_world\<lparr>promises := [Rejected (UnknownEvent ''bye'')]\<rparr>)
   \<and> wire (test_world\<lparr>promises := [Rejected (UnknownMethod ''bye'')]\<rparr>) = wire test_world"
proof -
  have m: "deref (heap test_world) (reflect_methods (Remote test_remote))
     = Some (MethodMap [(''hello'', hello_method)])"
    by (simp add: test_remote_maps)
  have e: "deref (heap test_world) (reflect_events (Remote test_remote)) = Some (EventMap [])"
    by (simp add: test_remote_maps)
  have p: "promises test_world = []"
    by (simp add: test_world_eq)
  from unknown_names_rejected [OF m e, of "''bye''" "[]" 7] m e show ?thesis
    by (simp add: p)
qed

subsection \<open>Errors of the implementation\<close>

text \<open>
  C7. Let node \<open>remote_home r\<close> hold the Remote Reflect \<open>r\<close> of a service whose Local
  Reflect \<open>l\<close> is registered on the owning node, both nodes joined, no message in
  flight, and let the implementation of the declared method \<open>m\<close> throw the value \<open>e\<close>
  on \<open>args\<close>. Then the remote call returns a pending promise, and once the request and
  the response have been delivered (any \<open>fuel\<close> of at least two) no message is in
  flight and that promise is rejected with a RemoteInvocationError that carries the
  message of \<open>e\<close>, which for \<^verbatim>\<open>Error('boom')\<close> is \<^verbatim>\<open>'boom'\<close>. The local call returns a
  promise rejected with \<open>e\<close> itself.
\<close>

theorem implementation_outcome_reaches_caller:
  fixes r :: RemoteReflect and l :: LocalReflect
  assumes rd: "deref (heap w) (methods_map r) = Some (MethodMap rms)" and ri: "m \<in> fst ` set rms"
      and ld: "deref (heap w) (methods_map l) = Some (MethodMap lms)" and li: "m \<in> fst ` set lms"
      and reg: "Map_get (locals (registries w (owner r))) (service_id r) = Some l"
      and jo: "state (registries w (owner r)) = Joined"
      and jn: "state (registries w (remote_home r)) = Joined"
      and im: "Map_get (impl l) m = Some f"
      and th: "f args = Throws e"
      and quiet: "wire w = []"
      and fuel: "2 \<le> fuel"
  shows "(\<exists>p w1 w2. RemoteReflect_apply r m args w = Inr (p, w1)
            \<and> await w1 p = Some Pending
            \<and> run fuel w1 = Inr w2 \<and> wire w2 = []
            \<and> await w2 p = Some (Rejected (RemoteInvocationError (error_message e))))
       \<and> (\<exists>p w1. LocalReflect_apply l m args w = Inr (p, w1)
            \<and> await w1 p = Some (Rejected (Thrown e)))"
proof -
  define n where "n = remote_home r"
  define ow where "ow = owner r"
  define c where "c = next_correlation (registries w n)"
  define p where "p = length (promises w)"
  define req where "req = CallRequest (service_id r) m args c"
  define res where "res = CallResponse c (Err (error_message e))"
  obtain w1 where c1: "RemoteReflect_apply r m args w = Inr (p, w1)"
    and w1: "heap w1 = heap w" "promises w1 = promises w @ [Pending]"
       "registries w1 = (registries w)(n := (registries w n)
           \<lparr>pending := Map_set (pending (registries w n)) c (p, ow), next_correlation := Suc c\<rparr>)"
       "wire w1 = [(n, ow, req)]"
    using RemoteReflect_apply_declared [OF rd ri, of args]
    by (simp add: n_def ow_def c_def p_def req_def quiet)
  have a1: "await w1 p = Some Pending"
    by (simp add: await_def w1 p_def)
  \<comment> \<open>the request arrives at the owner\<close>
  define w1' where "w1' = w1\<lparr>wire := []\<rparr>"
  have o1: "state (registries w1' ow) = Joined"
      "Map_get (locals (registries w1' ow)) (service_id r) = Some l"
    using jo reg by (auto simp: w1'_def w1 ow_def)
  have ld1: "deref (heap w1') (methods_map l) = Some (MethodMap lms)"
    using ld by (simp add: w1'_def w1)
  define w2 where "w2 = send ow n res (w1'\<lparr>promises := promises w1' @ [Rejected (Thrown e)]\<rparr>)"
  have d1: "deliver 0 w1 = Inr w2"
    using o1 LocalReflect_apply_declared [OF ld1 li im, of args]
    by (simp add: deliver_head [OF w1(4)] w1'_def [symmetric] receive_def req_def
        on_call_request_def th await_def w2_def res_def)
  have w2: "promises w2 = promises w @ [Pending, Rejected (Thrown e)]"
      "registries w2 = registries w1" "wire w2 = [(ow, n, res)]"
    by (simp_all add: w2_def send_def w1'_def w1)
  \<comment> \<open>the response arrives at the caller\<close>
  define w2' where "w2' = w2\<lparr>wire := []\<rparr>"
  have n2: "state (registries w2' n) = Joined"
      "Map_get (pending (registries w2' n)) c = Some (p, ow)"
    using jn by (simp_all add: w2'_def w2 w1 n_def Map_get_Map_set)
  define w3 where "w3 = on_call_response n c (Err (error_message e)) w2'"
  have d2: "deliver 0 w2 = Inr w3"
    using n2 by (simp add: deliver_head [OF w2(3)] w2'_def [symmetric] receive_def res_def w3_def)
  have w3: "promises w3 = promises w @ [Rejected (RemoteInvocationError (error_message e)),
              Rejected (Thrown e)]" "wire w3 = []"
    unfolding w3_def on_call_response_pending [OF n2(2)]
    by (simp_all add: settle_def w2'_def w2 p_def nth_append list_update_append)
  from at_least_two [OF fuel] obtain k where k: "fuel = Suc (Suc k)" ..
  have r: "run fuel w1 = Inr w3"
    by (simp add: k w1 d1 w2 d2 run_quiescent [OF w3(2)])
  have a3: "await w3 p = Some (Rejected (RemoteInvocationError (error_message e)))"
    by (simp add: await_def w3 p_def)
  have loc: "LocalReflect_apply l m args w
      = Inr (p, w\<lparr>promises := promises w @ [Rejected (Thrown e)]\<rparr>)"
    using LocalReflect_apply_declared [OF ld li im, of args] by (simp add: th p_def)
  have aloc: "await (w\<lparr>promises := promises w @ [Rejected (Thrown e)]\<rparr>) p = Some (Rejected (Thrown e))"
    by (simp add: await_def p_def)
  from c1 a1 r w3(2) a3 loc aloc show ?thesis
    by blast
qed

theorem implementation_outcome_reaches_caller_witness:
  "deref (heap boom_world) (methods_map test_remote) = Some (MethodMap [(''hello'', hello_method)])
   \<and> ''hello'' \<in> fst ` set [(''hello'', hello_method)]
   \<and> deref (heap boom_world) (methods_map boom_local) = Some (MethodMap [(''hello'', hello_method)])
   \<and> Map_get (locals (registries boom_world (owner test_remote))) (service_id test_remote)
       = Some boom_local
   \<and> state (registries boom_world (owner test_remote)) = Joined
   \<and> state (registries boom_world (remote_home test_remote)) = Joined
   \<and> Map_get (impl boom_local) ''hello'' = Some boom
   \<and> boom [JString ''world''] = Throws (JError ''boom'')
   \<and> wire boom_world = []
   \<and> (2::nat) \<le> 2
   \<and> (\<exists>p w1 w2. RemoteReflect_apply test_remote ''hello'' [JString ''world''] boom_world = Inr (p, w1)
          \<and> await w1 p = Some Pending
          \<and> run 2 w1 = Inr w2 \<and> wire w2 = []
          \<and> await w2 p = Some (Rejected (RemoteInvocationError ''boom'')))
   \<and> (\<exists>p w1. LocalReflect_apply boom_local ''hello'' [JString ''world''] boom_world = Inr (p, w1)
          \<and> await w1 p = Some (Rejected (Thrown (JError ''boom''))))"
proof -
  have rd: "deref (heap boom_world) (methods_map test_remote)
      = Some (MethodMap [(''hello'', hello_method)])"
    by (simp add: boom_world_eq test_remote_def deref_def)
  have i: "''hello'' \<in> fst ` set [(''hello'', hello_method)]"
    by simp
  have ld: "deref (heap boom_world) (methods_map boom_local)
      = Some (MethodMap [(''hello'', hello_method)])"
    by (simp add: boom_world_eq boom_local_def deref_def)
  have reg: "Map_get (locals (registries boom_world (owner test_remote))) (service_id test_remote)
      = Some boom_local"
    by (simp add: boom_world_eq test_remote_def Map_get_def Services_new_def)
  have jo: "state (registries boom_world (owner test_remote)) = Joined"
    by (simp add: boom_world_eq test_remote_def Services_new_def)
  have jn: "state (registries boom_world (remote_home test_remote)) = Joined"
    by (simp add: boom_world_eq test_remote_def Services_new_def)
  have im: "Map_get (impl boom_local) ''hello'' = Some boom"
    by (simp add: boom_local_def boom_impl_def Map_get_def)
  have th: "boom [JString ''world''] = Throws (JError ''boom'')"
    by (simp add: boom_def)
  have quiet: "wire boom_world = []"
    by (simp add: boom_world_eq)
  have fuel: "(2::nat) \<le> 2"
    by simp
  from implementation_outcome_reaches_caller [OF rd i ld i reg jo jn im th quiet fuel]
    rd i ld reg jo jn im th quiet
  show ?thesis by simp
qed

subsection \<open>Calls in flight together\<close>

text \<open>
  C8. Let two Remote Reflects of node \<open>n\<close> (possibly the same one) declare the methods
  \<open>m1\<close> and \<open>m2\<close>, and let node \<open>n\<close> call \<open>m1\<close> and then \<open>m2\<close>, with any arguments.
  The two calls get different correlation ids and different promises, each request
  carries the id of its own call, and both promises are pending. If the response to the
  second call arrives first, it settles the second promise with its own payload while
  the first stays pending, and the response to the first call then settles the first
  promise with its own payload; if the responses arrive in the order of the requests
  the two promises are settled in the same way.
\<close>

theorem concurrent_calls_correlated:
  fixes r1 r2 :: RemoteReflect
  assumes d1: "deref (heap w) (methods_map r1) = Some (MethodMap ms1)" and i1: "m1 \<in> fst ` set ms1"
      and d2: "deref (heap w) (methods_map r2) = Some (MethodMap ms2)" and i2: "m2 \<in> fst ` set ms2"
      and h1: "remote_home r1 = n" and h2: "remote_home r2 = n"
      and k1: "k1 = next_correlation (registries w n)"
  shows "\<exists>p1 w1 p2 w2 k2.
           RemoteReflect_apply r1 m1 a1 w = Inr (p1, w1)
         \<and> RemoteReflect_apply r2 m2 a2 w1 = Inr (p2, w2)
         \<and> k2 = next_correlation (registries w1 n)
         \<and> k1 \<noteq> k2 \<and> p1 \<noteq> p2
         \<and> wire w2 = wire w @ [(n, owner r1, CallRequest (service_id r1) m1 a1 k1),
                                (n, owner r2, CallRequest (service_id r2) m2 a2 k2)]
         \<and> await w2 p1 = Some Pending \<and> await w2 p2 = Some Pending
         \<and> await (on_call_response n k2 x2 w2) p1 = Some Pending
         \<and> await (on_call_response n k2 x2 w2) p2 = Some (settlement x2)
         \<and> await (on_call_response n k1 x1 (on_call_response n k2 x2 w2)) p1 = Some (settlement x1)
         \<and> await (on_call_response n k1 x1 (on_call_response n k2 x2 w2)) p2 = Some (settlement x2)
         \<and> await (on_call_response n k2 x2 (on_call_response n k1 x1 w2)) p1 = Some (settlement x1)
         \<and> await (on_call_response n k2 x2 (on_call_response n k1 x1 w2)) p2 = Some (settlement x2)"
proof -
  define p1 where "p1 = length (promises w)"
  define k2 where "k2 = Suc k1"
  obtain w1 where c1: "RemoteReflect_apply r1 m1 a1 w = Inr (p1, w1)"
    and w1: "heap w1 = heap w" "promises w1 = promises w @ [Pending]"
       "registries w1 = (registries w)(n := (registries w n)
           \<lparr>pending := Map_set (pending (registries w n)) k1 (p1, owner r1),
            next_correlation := k2\<rparr>)"
       "wire w1 = wire w @ [(n, owner r1, CallRequest (service_id r1) m1 a1 k1)]"
    using RemoteReflect_apply_declared [OF d1 i1, of a1]
    by (simp add: h1 k1 p1_def k2_def)
  define p2 where "p2 = Suc p1"
  have d2': "deref (heap w1) (methods_map r2) = Some (MethodMap ms2)"
    using d2 by (simp add: w1)
  obtain w2 where c2: "RemoteReflect_apply r2 m2 a2 w1 = Inr (p2, w2)"
    and w2: "promises w2 = promises w @ [Pending, Pending]"
       "registries w2 n = (registries w n)
           \<lparr>pending := Map_set (Map_set (pending (registries w n)) k1 (p1, owner r1)) k2 (p2, owner r2),
            next_correlation := Suc k2\<rparr>"
       "wire w2 = wire w @ [(n, owner r1, CallRequest (service_id r1) m1 a1 k1),
                            (n, owner r2, CallRequest (service_id r2) m2 a2 k2)]"
    using RemoteReflect_apply_declared [OF d2' i2, of a2]
    by (simp add: h2 w1 p2_def p1_def)
  have nk: "k1 \<noteq> k2" and np: "p1 \<noteq> p2"
    by (simp_all add: k2_def p2_def)
  have g1: "Map_get (pending (registries w2 n)) k1 = Some (p1, owner r1)"
    and g2: "Map_get (pending (registries w2 n)) k2 = Some (p2, owner r2)"
    using nk by (simp_all add: w2 Map_get_Map_set)
  have a1: "await w2 p1 = Some Pending" and a2: "await w2 p2 = Some Pending"
    by (simp_all add: await_def w2 p1_def p2_def nth_append)
  let ?wa = "on_call_response n k2 x2 w2"
  have wa: "promises ?wa = promises w @ [Pending, settlement x2]"
       "Map_get (pending (registries ?wa n)) k1 = Some (p1, owner r1)"
    using nk g1
    by (simp_all add: on_call_response_pending [OF g2] settle_def w2 p1_def p2_def nth_append
        list_update_append Map_get_Map_delete)
  let ?wb = "on_call_response n k1 x1 w2"
  have wb: "promises ?wb = promises w @ [settlement x1, Pending]"
       "Map_get (pending (registries ?wb n)) k2 = Some (p2, owner r2)"
    using nk g2
    by (simp_all add: on_call_response_pending [OF g1] settle_def w2 p1_def p2_def nth_append
        list_update_append Map_get_Map_delete)
  have waa: "promises (on_call_response n k1 x1 ?wa) = promises w @ [settlement x1, settlement x2]"
    by (simp add: on_call_response_pending [OF wa(2)] settle_def wa(1) p1_def nth_append list_update_append)
  have wbb: "promises (on_call_response n k2 x2 ?wb) = promises w @ [settlement x1, settlement x2]"
    by (simp add: on_call_response_pending [OF wb(2)] settle_def wb(1) p1_def p2_def nth_append list_update_append)
  have "k2 = next_correlation (registries w1 n)"
    by (simp add: w1)
  moreover have "await ?wa p1 = Some Pending" "await ?wa p2 = Some (settlement x2)"
    by (simp_all add: await_def wa p1_def p2_def nth_append)
  moreover have "await (on_call_response n k1 x1 ?wa) p1 = Some (settlement x1)"
      "await (on_call_response n k1 x1 ?wa) p2 = Some (settlement x2)"
    by (simp_all add: await_def waa p1_def p2_def nth_append)
  moreover have "await (on_call_response n k2 x2 ?wb) p1 = Some (settlement x1)"
      "await (on_call_response n k2 x2 ?wb) p2 = Some (settlement x2)"
    by (simp_all add: await_def wbb p1_def p2_def nth_append)
  ultimately show ?thesis
    using c1 c2 nk np w2(3) a1 a2 by blast
qed

lemma two_calls_reversed_result:
  "two_calls_reversed
     = Inr (Some Pending, Some (Resolved (JString ''Hello x!'')),
            Some (Resolved (JString ''Hello y!'')))"
  by (simp add: two_calls_reversed_def test_world_eq scenario_defs test_remote_def)

theorem concurrent_calls_correlated_witness:
  "deref (heap test_world) (methods_map test_remote) = Some (MethodMap [(''hello'', hello_method)])
   \<and> ''hello'' \<in> fst ` set [(''hello'', hello_method)]
   \<and> remote_home test_remote = ''b''
   \<and> 0 = next_correlation (registries test_world ''b'')
   \<and> (\<exists>p1 w1 p2 w2 k2.
         RemoteReflect_apply test_remote ''hello'' [JString ''x''] test_world = Inr (p1, w1)
       \<and> RemoteReflect_apply test_remote ''hello'' [JString ''y''] w1 = Inr (p2, w2)
       \<and> 0 \<noteq> k2 \<and> p1 \<noteq> p2
       \<and> wire w2 = [(''b'', ''a'', CallRequest ''test'' ''hello'' [JString ''x''] 0),
                     (''b'', ''a'', CallRequest ''test'' ''hello'' [JString ''y''] k2)]
       \<and> await (on_call_response ''b'' k2 (Ok (JString ''Hello y!'')) w2) p1 = Some Pending
       \<and> await (on_call_response ''b'' k2 (Ok (JString ''Hello y!'')) w2) p2
           = Some (Resolved (JString ''Hello y!''))
       \<and> await (on_call_response ''b'' 0 (Ok (JString ''Hello x!''))
                  (on_call_response ''b'' k2 (Ok (JString ''Hello y!'')) w2)) p1
           = Some (Resolved (JString ''Hello x!''))
       \<and> await (on_call_response ''b'' 0 (Ok (JString ''Hello x!''))
                  (on_call_response ''b'' k2 (Ok (JString ''Hello y!'')) w2)) p2
           = Some (Resolved (JString ''Hello y!'')))
   \<and> two_calls_reversed
       = Inr (Some Pending, Some (Resolved (JString ''Hello x!'')),
              Some (Resolved (JString ''Hello y!'')))"
proof -
  have d: "deref (heap test_world) (methods_map test_remote)
      = Some (MethodMap [(''hello'', hello_method)])"
    by (rule test_remote_maps)
  have i: "''hello'' \<in> fst ` set [(''hello'', hello_method)]"
    by simp
  have h: "remote_home test_remote = ''b''"
    by (simp add: test_remote_def)
  have k: "0 = next_correlation (registries test_world ''b'')"
    by (simp add: test_world_eq Services_new_def)
  have w: "wire test_world = []" "owner test_remote = ''a''" "service_id test_remote = ''test''"
    by (simp_all add: test_world_eq test_remote_def)
  from concurrent_calls_correlated [OF d i d i h h k,
      of "[JString ''x'']" "[JString ''y'']" "Ok (JString ''Hello y!'')" "Ok (JString ''Hello x!'')"]
  obtain p1 w1 p2 w2 k2 where
      "RemoteReflect_apply test_remote ''hello'' [JString ''x''] test_world = Inr (p1, w1)"
      "RemoteReflect_apply test_remote ''hello'' [JString ''y''] w1 = Inr (p2, w2)"
      "0 \<noteq> k2" "p1 \<noteq> p2"
      "wire w2 = [(''b'', ''a'', CallRequest ''test'' ''hello'' [JString ''x''] 0),
                  (''b'', ''a'', CallRequest ''test'' ''hello'' [JString ''y''] k2)]"
      "await (on_call_response ''b'' k2 (Ok (JString ''Hello y!'')) w2) p1 = Some Pending"
      "await (on_call_response ''b'' k2 (Ok (JString ''Hello y!'')) w2) p2
         = Some (Resolved (JString ''Hello y!''))"
      "await (on_call_response ''b'' 0 (Ok (JString ''Hello x!''))
                (on_call_response ''b'' k2 (Ok (JString ''Hello y!'')) w2)) p1
         = Some (Resolved (JString ''Hello x!''))"
      "await (on_call_response ''b'' 0 (Ok (JString ''Hello x!''))
                (on_call_response ''b'' k2 (Ok (JString ''Hello y!'')) w2)) p2
         = Some (Resolved (JString ''Hello y!''))"
    by (auto simp: w)
  then have "\<exists>p1 w1 p2 w2 k2.
         RemoteReflect_apply test_remote ''hello'' [JString ''x''] test_world = Inr (p1, w1)
       \<and> RemoteReflect_apply test_remote ''hello'' [JString ''y''] w1 = Inr (p2, w2)
       \<and> 0 \<noteq> k2 \<and> p1 \<noteq> p2
       \<and> wire w2 = [(''b'', ''a'', CallRequest ''test'' ''hello'' [JString ''x''] 0),
                     (''b'', ''a'', CallRequest ''test'' ''hello'' [JString ''y''] k2)]
       \<and> await (on_call_response ''b'' k2 (Ok (JString ''Hello y!'')) w2) p1 = Some Pending
       \<and> await (on_call_response ''b'' k2 (Ok (JString ''Hello y!'')) w2) p2
           = Some (Resolved (JString ''Hello y!''))
       \<and> await (on_call_response ''b'' 0 (Ok (JString ''Hello x!''))
                  (on_call_response ''b'' k2 (Ok (JString ''Hello y!'')) w2)) p1
           = Some (Resolved (JString ''Hello x!''))
       \<and> await (on_call_response ''b'' 0 (Ok (JString ''Hello x!''))
                  (on_call_response ''b'' k2 (Ok (JString ''Hello y!'')) w2)) p2
           = Some (Resolved (JString ''Hello y!''))"
    by blast
  with d i h k two_calls_reversed_result show ?thesis
    by blast
qed

end
